theory Spec2Isabelle
  imports Main "HOL-Library.Sublist"
begin

section \<open>Python values\<close>

text \<open>
  The program is \<^verbatim>\<open>App1/controleurs/gestion_projet.py\<close>, the class \<^verbatim>\<open>GestionProjet\<close>.
  A project is a Python \<^verbatim>\<open>dict\<close> read from and written to a JSON document, so the
  values the program handles are JSON values. A Python \<^verbatim>\<open>str\<close> is a \<open>string\<close>,
  one \<open>char\<close> per code point (code points below 256). A \<^verbatim>\<open>dict\<close> keeps its
  keys in insertion order, so it is an association list; the operations below keep the
  keys distinct when they start from distinct keys. Floating-point numbers are left out.
\<close>

datatype json =
    JNull
  | JBool bool
  | JInt int
  | JStr string
  | JList "json list"
  | JObj "(string \<times> json) list"

type_synonym dict = "(string \<times> json) list"

text \<open>\<^verbatim>\<open>k in d\<close>, \<^verbatim>\<open>d[k]\<close> (\<open>None\<close> stands for \<^verbatim>\<open>KeyError\<close>),
  \<^verbatim>\<open>d[k] = v\<close> (an existing key keeps its place, a new key goes last) and
  \<^verbatim>\<open>del d[k]\<close> / \<^verbatim>\<open>d.pop(k)\<close>.\<close>

definition dict_keys :: "dict \<Rightarrow> string list" where
  "dict_keys d = map fst d"

definition dict_has :: "dict \<Rightarrow> string \<Rightarrow> bool" where
  "dict_has d k = (k \<in> set (dict_keys d))"

definition dict_get :: "dict \<Rightarrow> string \<Rightarrow> json option" where
  "dict_get d k = map_of d k"

fun dict_set :: "dict \<Rightarrow> string \<Rightarrow> json \<Rightarrow> dict" where
  "dict_set [] k v = [(k, v)]"
| "dict_set ((k', v') # d) k v = (if k' = k then (k, v) # d else (k', v') # dict_set d k v)"

definition dict_del :: "dict \<Rightarrow> string \<Rightarrow> dict" where
  "dict_del d k = filter (\<lambda>kv. fst kv \<noteq> k) d"

text \<open>The exceptions the program raises or lets through. Every \<^verbatim>\<open>raise\<close> of the
  source is a \<^verbatim>\<open>ValueError\<close>; the message tells them apart. The spec's error kinds
  are names for these messages. The library raises one more \<^verbatim>\<open>ValueError\<close>, for a path
  that holds a NUL character.\<close>

datatype message =
    DonneesIncompletes    \<comment> \<open>line 42: "Donnees incompletes pour la creation du projet"\<close>
  | NomRequis             \<comment> \<open>line 47: "Le nom du projet est requis"\<close>
  | ProjetExisteDeja      \<comment> \<open>line 52: "Un projet nomme ... existe deja"\<close>
  | PlanIntrouvable       \<comment> \<open>line 56: "Le fichier plan specifie est introuvable"\<close>
  | ProjetIntrouvable     \<comment> \<open>lines 95, 132: "Le projet ... est introuvable"\<close>
  | ErreurChargement      \<comment> \<open>line 103: "Erreur lors du chargement de la configuration"\<close>
  | ConfigInvalide        \<comment> \<open>line 108: "Configuration du projet invalide ou incomplete"\<close>
  | ErreurSuppression     \<comment> \<open>line 138: "Erreur lors de la suppression"\<close>
  | AucunProjetASauvegarder \<comment> \<open>line 149: "Aucun projet actif a sauvegarder"\<close>
  | ErreurSauvegarde      \<comment> \<open>line 159: "Erreur lors de la sauvegarde"\<close>
  | AucunProjetActif      \<comment> \<open>line 175: "Aucun projet actif"\<close>
  | OctetNul              \<comment> \<open>"embedded null byte", raised by the library on line 59\<close>

datatype error =
    ValueError message
  | KeyError
  | TypeError
  | AttributeError
  | OSError

abbreviation AssetNotFoundError :: error where
  "AssetNotFoundError \<equiv> ValueError PlanIntrouvable"

section \<open>Strings and paths\<close>

text \<open>\<^verbatim>\<open>str.isspace\<close> on one character, for the code points below 256.\<close>

definition isspace :: "char \<Rightarrow> bool" where
  "isspace c = (c \<in> set [CHR 0x09, CHR 0x0A, CHR 0x0B, CHR 0x0C, CHR 0x0D,
                          CHR 0x1C, CHR 0x1D, CHR 0x1E, CHR 0x1F, CHR 0x20,
                          CHR 0x85, CHR 0xA0])"

definition strip :: "string \<Rightarrow> string" where
  "strip s = rev (dropWhile isspace (rev (dropWhile isspace s)))"

text \<open>\<^verbatim>\<open>s.replace("\\", "/")\<close>.\<close>

definition replace_backslash :: "string \<Rightarrow> string" where
  "replace_backslash s = map (\<lambda>c. if c = CHR 0x5C then CHR ''/'' else c) s"

text \<open>\<^verbatim>\<open>needle in haystack\<close> on two strings: a contiguous occurrence.\<close>

fun str_contains :: "string \<Rightarrow> string \<Rightarrow> bool" where
  "str_contains [] needle = (needle = [])"
| "str_contains (c # cs) needle = (prefix needle (c # cs) \<or> str_contains cs needle)"

text \<open>\<^verbatim>\<open>p.split("/")\<close> and \<^verbatim>\<open>"/".join(comps)\<close>.\<close>

fun split_sep :: "string \<Rightarrow> string list" where
  "split_sep [] = [[]]"
| "split_sep (c # cs) =
     (if c = CHR ''/'' then [] # split_sep cs
      else (case split_sep cs of [] \<Rightarrow> [[c]] | w # ws \<Rightarrow> (c # w) # ws))"

fun join_sep :: "string list \<Rightarrow> string" where
  "join_sep [] = []"
| "join_sep [x] = x"
| "join_sep (x # y # ys) = x @ CHR ''/'' # join_sep (y # ys)"

text \<open>The path functions are those of \<^verbatim>\<open>posixpath\<close>. \<^verbatim>\<open>os.path.join(a, b)\<close>;
  a call with more arguments folds it from the left.\<close>

definition path_join :: "string \<Rightarrow> string \<Rightarrow> string" where
  "path_join a b =
     (if b \<noteq> [] \<and> hd b = CHR ''/'' then b
      else if a = [] \<or> last a = CHR ''/'' then a @ b
      else a @ CHR ''/'' # b)"

text \<open>\<^verbatim>\<open>os.path.normpath\<close>: the loop over the components, with the stack
  \<^verbatim>\<open>new_comps\<close>, then the result put together.\<close>

fun normpath_loop :: "bool \<Rightarrow> string list \<Rightarrow> string list \<Rightarrow> string list" where
  "normpath_loop rooted new_comps [] = new_comps"
| "normpath_loop rooted new_comps (nm # comps) =
     (if nm = [] \<or> nm = ''.'' then normpath_loop rooted new_comps comps
      else if nm \<noteq> ''..'' \<or> (\<not> rooted \<and> new_comps = [])
              \<or> (new_comps \<noteq> [] \<and> last new_comps = ''..'')
        then normpath_loop rooted (new_comps @ [nm]) comps
      else if new_comps \<noteq> [] then normpath_loop rooted (butlast new_comps) comps
      else normpath_loop rooted new_comps comps)"

definition initial_slashes :: "string \<Rightarrow> nat" where
  "initial_slashes path =
     (if \<not> prefix ''/'' path then 0
      else if prefix ''//'' path \<and> \<not> prefix ''///'' path then 2
      else 1)"

definition normpath :: "string \<Rightarrow> string" where
  "normpath path =
     (if path = [] then ''.''
      else
        let n = initial_slashes path;
            comps = normpath_loop (n \<noteq> 0) [] (split_sep path);
            res = replicate n (CHR ''/'') @ join_sep comps
        in if res = [] then ''.'' else res)"

text \<open>\<^verbatim>\<open>os.path.basename(p)\<close> and \<^verbatim>\<open>os.path.splitext(p)[1]\<close>: the extension starts at
  the last dot of the last component, unless only dots stand before it there.\<close>

definition basename :: "string \<Rightarrow> string" where
  "basename p = rev (takeWhile (\<lambda>c. c \<noteq> CHR ''/'') (rev p))"

definition splitext_ext :: "string \<Rightarrow> string" where
  "splitext_ext p =
     (let base = basename p;
          after_dot = rev (takeWhile (\<lambda>c. c \<noteq> CHR ''.'') (rev base));
          before_dot = take (length base - length after_dot - 1) base
      in if CHR ''.'' \<notin> set base \<or> list_all (\<lambda>c. c = CHR ''.'') before_dot then []
         else CHR ''.'' # after_dot)"

section \<open>The file system\<close>

text \<open>
  The file system is a collaborator of the program, not part of its source: it is
  modelled as a map from absolute paths (lists of names below the root \<open>[]\<close>) to nodes,
  without symbolic links, permissions or timestamps. A file holds either a document that
  \<^verbatim>\<open>json.load\<close> parses to the given value, or other bytes. \<^verbatim>\<open>json.dump\<close> followed by
  \<^verbatim>\<open>json.load\<close> gives the value back.
\<close>

datatype content = JsonText json | OtherBytes nat

datatype node = Dir | File content

type_synonym fs = "string list \<Rightarrow> node option"

text \<open>Path resolution walks the components from the root or from the working
  directory; every node it passes through must be a directory. The empty path and a path
  with a NUL character name nothing.\<close>

definition step :: "string list \<Rightarrow> string \<Rightarrow> string list" where
  "step cur nm =
     (if nm = [] \<or> nm = ''.'' then cur
      else if nm = ''..'' then butlast cur
      else cur @ [nm])"

fun walk :: "fs \<Rightarrow> string list \<Rightarrow> string list \<Rightarrow> string list option" where
  "walk f cur [] = Some cur"
| "walk f cur (nm # comps) =
     (if f cur = Some Dir then walk f (step cur nm) comps else None)"

definition start_dir :: "string list \<Rightarrow> string \<Rightarrow> string list" where
  "start_dir cwd p = (if prefix ''/'' p then [] else cwd)"

definition resolve :: "fs \<Rightarrow> string list \<Rightarrow> string \<Rightarrow> string list option" where
  "resolve f cwd p =
     (if p = [] \<or> CHR 0x00 \<in> set p then None else walk f (start_dir cwd p) (split_sep p))"

text \<open>\<^verbatim>\<open>os.path.exists\<close>, \<^verbatim>\<open>os.path.isdir\<close>, \<^verbatim>\<open>os.path.isfile\<close>: all three answer
  \<^verbatim>\<open>False\<close> for a path that names nothing.\<close>

definition path_exists :: "fs \<Rightarrow> string list \<Rightarrow> string \<Rightarrow> bool" where
  "path_exists f cwd p = (case resolve f cwd p of None \<Rightarrow> False | Some q \<Rightarrow> f q \<noteq> None)"

definition isdir :: "fs \<Rightarrow> string list \<Rightarrow> string \<Rightarrow> bool" where
  "isdir f cwd p = (case resolve f cwd p of None \<Rightarrow> False | Some q \<Rightarrow> f q = Some Dir)"

definition isfile :: "fs \<Rightarrow> string list \<Rightarrow> string \<Rightarrow> bool" where
  "isfile f cwd p =
     (case resolve f cwd p of None \<Rightarrow> False
      | Some q \<Rightarrow> (case f q of Some (File c) \<Rightarrow> True | _ \<Rightarrow> False))"

text \<open>\<^verbatim>\<open>os.makedirs(p)\<close>: creates the missing directories that lead to the last
  component of the path (trailing slashes apart), then makes the directory itself, which
  must not exist by then. The directories made before a failure stay. A path that ends in
  \<^verbatim>\<open>.\<close> succeeds when the directory before it had to be made, and one that ends in
  \<^verbatim>\<open>..\<close> fails, as \<^verbatim>\<open>mkdir\<close> refuses both. In a path with a NUL character the
  directories before the first component that holds one are made, then \<^verbatim>\<open>mkdir\<close>
  raises \<^verbatim>\<open>ValueError\<close>. The result is the exception raised, if any, and the file
  system left.\<close>

fun mkdir_walk :: "fs \<Rightarrow> string list \<Rightarrow> string list \<Rightarrow> fs \<times> string list option" where
  "mkdir_walk f cur [] = (f, Some cur)"
| "mkdir_walk f cur (nm # comps) =
     (if f cur \<noteq> Some Dir then (f, None)
      else let nxt = step cur nm
           in mkdir_walk (if f nxt = None then f(nxt \<mapsto> Dir) else f) nxt comps)"

definition makedirs :: "fs \<Rightarrow> string list \<Rightarrow> string \<Rightarrow> error option \<times> fs" where
  "makedirs f cwd p =
     (let comps = rev (dropWhile (\<lambda>nm. nm = []) (rev (split_sep p)))
      in if comps = [] then (Some OSError, f)
         else if CHR 0x00 \<in> set p then
           (case mkdir_walk f (start_dir cwd p) (takeWhile (\<lambda>nm. CHR 0x00 \<notin> set nm) comps) of
              (f', None) \<Rightarrow> (Some OSError, f')
            | (f', Some parent) \<Rightarrow> (Some (ValueError OctetNul), f'))
         else (case mkdir_walk f (start_dir cwd p) (butlast comps) of
                 (f', None) \<Rightarrow> (Some OSError, f')
               | (f', Some parent) \<Rightarrow>
                   let tail = last comps
                   in if tail = ''.''
                        then (if f parent = None \<and> f' parent = Some Dir then None
                              else Some OSError, f')
                      else if tail = ''..'' then (Some OSError, f')
                      else if f' parent = Some Dir \<and> f' (parent @ [tail]) = None
                        then (None, f'(parent @ [tail] \<mapsto> Dir))
                      else (Some OSError, f')))"

text \<open>Opening a file for writing and writing \<open>c\<close>, and reading a file.\<close>

definition write_file :: "fs \<Rightarrow> string list \<Rightarrow> string \<Rightarrow> content \<Rightarrow> fs option" where
  "write_file f cwd p c =
     (case resolve f cwd p of None \<Rightarrow> None
      | Some q \<Rightarrow> if f q = Some Dir then None else Some (f(q \<mapsto> File c)))"

definition read_file :: "fs \<Rightarrow> string list \<Rightarrow> string \<Rightarrow> content option" where
  "read_file f cwd p =
     (case resolve f cwd p of None \<Rightarrow> None
      | Some q \<Rightarrow> (case f q of Some (File c) \<Rightarrow> Some c | _ \<Rightarrow> None))"

text \<open>\<^verbatim>\<open>shutil.copy2(src, dst)\<close>: into \<open>dst\<close> when it is a directory, under the source's
  base name; refused when source and destination are the same file.\<close>

definition copy2 :: "fs \<Rightarrow> string list \<Rightarrow> string \<Rightarrow> string \<Rightarrow> fs option" where
  "copy2 f cwd src dst =
     (case read_file f cwd src of None \<Rightarrow> None
      | Some c \<Rightarrow>
          let dst' = (if isdir f cwd dst then path_join dst (basename src) else dst)
          in if resolve f cwd dst' = resolve f cwd src then None
             else write_file f cwd dst' c)"

text \<open>\<^verbatim>\<open>json.dump\<close> into a file opened for writing, \<^verbatim>\<open>json.load\<close> from a file.\<close>

definition json_dump :: "fs \<Rightarrow> string list \<Rightarrow> string \<Rightarrow> json \<Rightarrow> fs option" where
  "json_dump f cwd p v = write_file f cwd p (JsonText v)"

definition json_load :: "fs \<Rightarrow> string list \<Rightarrow> string \<Rightarrow> json option" where
  "json_load f cwd p =
     (case read_file f cwd p of Some (JsonText v) \<Rightarrow> Some v | _ \<Rightarrow> None)"

text \<open>\<^verbatim>\<open>shutil.rmtree(p)\<close>: removes everything below the directory, then the directory
  itself with \<^verbatim>\<open>rmdir\<close>, which refuses a path whose last component (trailing slashes
  apart) is \<^verbatim>\<open>.\<close> or \<^verbatim>\<open>..\<close>, and the root. What was removed before the failure stays
  removed. The result tells whether the call returned, and the file system left.\<close>

definition rmtree :: "fs \<Rightarrow> string list \<Rightarrow> string \<Rightarrow> bool \<times> fs" where
  "rmtree f cwd p =
     (case resolve f cwd p of
        None \<Rightarrow> (False, f)
      | Some q \<Rightarrow>
          if f q \<noteq> Some Dir then (False, f)
          else
            let comps = rev (dropWhile (\<lambda>nm. nm = []) (rev (split_sep p)));
                vide = (\<lambda>r. if strict_prefix q r then None else f r)
            in if comps = [] \<or> last comps = ''.'' \<or> last comps = ''..''
                 then (False, vide)
               else (True, vide(q := None)))"

section \<open>The project store\<close>

text \<open>
  \<open>DOSSIER_PROJETS\<close> comes from the module \<^verbatim>\<open>config\<close>, which is not among the
  sources: it is a parameter, as is the working directory of the process, against which
  relative paths resolve. The state is the file system and the attribute
  \<^verbatim>\<open>self.projet_actuel\<close> (\<open>None\<close> or a \<^verbatim>\<open>dict\<close>). Every operation returns its
  result or the exception it raises, together with the state it leaves.
\<close>

record env =
  DOSSIER_PROJETS :: string
  cwd :: "string list"

record world =
  disk :: fs
  projet_actuel :: "dict option"

text \<open>\<^verbatim>\<open>if not self.projet_actuel\<close>: \<^verbatim>\<open>None\<close> and the empty \<^verbatim>\<open>dict\<close> are both
  false.\<close>

definition projet_actif :: "world \<Rightarrow> dict option" where
  "projet_actif s =
     (case projet_actuel s of None \<Rightarrow> None
      | Some cfg \<Rightarrow> if cfg = [] then None else Some cfg)"

text \<open>\<^verbatim>\<open>x in v\<close> for a string \<open>x\<close>: a key of a \<^verbatim>\<open>dict\<close>, an element of a
  \<^verbatim>\<open>list\<close>, a substring of a \<^verbatim>\<open>str\<close>; a \<^verbatim>\<open>TypeError\<close> otherwise.\<close>

fun py_in :: "string \<Rightarrow> json \<Rightarrow> error + bool" where
  "py_in x (JObj d) = Inr (dict_has d x)"
| "py_in x (JList vs) = Inr (JStr x \<in> set vs)"
| "py_in x (JStr s) = Inr (str_contains s x)"
| "py_in x v = Inl TypeError"

subsection \<open>\<^verbatim>\<open>creer_projet\<close> (lines 31 to 85)\<close>

definition creer_projet ::
  "env \<Rightarrow> string \<Rightarrow> string \<Rightarrow> string \<Rightarrow> string \<Rightarrow> world \<Rightarrow> (error + unit) \<times> world" where
  "creer_projet ev nom0 magasin auteur plan s =
     (if nom0 = [] \<or> magasin = [] \<or> auteur = [] \<or> plan = []
        then (Inl (ValueError DonneesIncompletes), s)
      else
        let nom = strip nom0 in
        if nom = [] then (Inl (ValueError NomRequis), s)
        else
          let mon_dossier = path_join (DOSSIER_PROJETS ev) nom in
          if path_exists (disk s) (cwd ev) mon_dossier
            then (Inl (ValueError ProjetExisteDeja), s)
          else if \<not> isfile (disk s) (cwd ev) plan
            then (Inl (ValueError PlanIntrouvable), s)
          else
            (case makedirs (disk s) (cwd ev) mon_dossier of
               (Some e, f1) \<Rightarrow> (Inl e, s\<lparr>disk := f1\<rparr>)
             | (None, f1) \<Rightarrow>
                 let extension = splitext_ext plan;
                     mon_plan = normpath (path_join (path_join (path_join ''App1'' ''projets'') nom)
                                            (''plan'' @ extension))
                 in (case copy2 f1 (cwd ev) plan mon_plan of
                       None \<Rightarrow> (Inl OSError, s\<lparr>disk := f1\<rparr>)
                     | Some f2 \<Rightarrow>
                         let ma_config =
                               [(''nom'', JStr nom),
                                (''magasin'', JStr magasin),
                                (''auteur'', JStr auteur),
                                (''chemin_plan'', JStr (replace_backslash mon_plan)),
                                (''produits'', JObj [])];
                             mon_fichier = path_join mon_dossier ''config.json''
                         in (case json_dump f2 (cwd ev) mon_fichier (JObj ma_config) of
                               None \<Rightarrow> (Inl OSError, s\<lparr>disk := f2\<rparr>)
                             | Some f3 \<Rightarrow>
                                 (Inr (), \<lparr>disk = f3, projet_actuel = Some ma_config\<rparr>)))))"

subsection \<open>\<^verbatim>\<open>charger_projet\<close> (lines 87 to 123)\<close>

definition champs_requis :: "string list" where
  "champs_requis = [''nom'', ''magasin'', ''auteur'', ''chemin_plan'']"

text \<open>\<^verbatim>\<open>all(champ in ma_config for champ in champs_requis)\<close>: stops at the first
  field that is missing, and raises where \<^verbatim>\<open>in\<close> does.\<close>

fun all_in :: "string list \<Rightarrow> json \<Rightarrow> error + bool" where
  "all_in [] v = Inr True"
| "all_in (champ # champs) v =
     (case py_in champ v of
        Inl e \<Rightarrow> Inl e
      | Inr False \<Rightarrow> Inr False
      | Inr True \<Rightarrow> all_in champs v)"

text \<open>Lines 114 to 119, the three branches in the order of the source.\<close>

definition compat_produits :: "dict \<Rightarrow> dict" where
  "compat_produits ma_config =
     (if dict_has ma_config ''produits_par_case'' then
        (case dict_get ma_config ''produits_par_case'' of
           None \<Rightarrow> ma_config
         | Some v \<Rightarrow> dict_set (dict_del ma_config ''produits_par_case'') ''produits'' v)
      else if \<not> dict_has ma_config ''produits'' then dict_set ma_config ''produits'' (JObj [])
      else (case dict_get ma_config ''produits'' of
              Some (JList vs) \<Rightarrow> dict_set ma_config ''produits'' (JObj [])
            | _ \<Rightarrow> ma_config))"

definition charger_projet :: "env \<Rightarrow> string \<Rightarrow> world \<Rightarrow> (error + dict) \<times> world" where
  "charger_projet ev nom s =
     (let mon_dossier = path_join (DOSSIER_PROJETS ev) nom in
      if \<not> isdir (disk s) (cwd ev) mon_dossier then (Inl (ValueError ProjetIntrouvable), s)
      else
        (case json_load (disk s) (cwd ev) (path_join mon_dossier ''config.json'') of
           None \<Rightarrow> (Inl (ValueError ErreurChargement), s)
         | Some doc \<Rightarrow>
             (case all_in champs_requis doc of
                Inl e \<Rightarrow> (Inl e, s)
              | Inr False \<Rightarrow> (Inl (ValueError ConfigInvalide), s)
              | Inr True \<Rightarrow>
                  (case doc of
                     JObj ma_config \<Rightarrow>
                       (case dict_get ma_config ''chemin_plan'' of
                          None \<Rightarrow> (Inl KeyError, s)
                        | Some (JStr chemin) \<Rightarrow>
                            let cfg1 = dict_set ma_config ''chemin_plan''
                                         (JStr (replace_backslash (normpath chemin)));
                                cfg2 = compat_produits cfg1
                            in (Inr cfg2, s\<lparr>projet_actuel := Some cfg2\<rparr>)
                        | Some v \<Rightarrow> (Inl TypeError, s))
                   | v \<Rightarrow> (Inl TypeError, s)))))"

subsection \<open>\<^verbatim>\<open>supprimer_projet\<close> (lines 125 to 142)\<close>

definition supprimer_projet :: "env \<Rightarrow> string \<Rightarrow> world \<Rightarrow> (error + unit) \<times> world" where
  "supprimer_projet ev nom s =
     (let mon_dossier = path_join (DOSSIER_PROJETS ev) nom in
      if \<not> isdir (disk s) (cwd ev) mon_dossier then (Inl (ValueError ProjetIntrouvable), s)
      else
        (case rmtree (disk s) (cwd ev) mon_dossier of
           (False, f) \<Rightarrow> (Inl (ValueError ErreurSuppression), s\<lparr>disk := f\<rparr>)
         | (True, f) \<Rightarrow>
             (case projet_actif s of
                None \<Rightarrow> (Inr (), s\<lparr>disk := f\<rparr>)
              | Some cfg \<Rightarrow>
                  (case dict_get cfg ''nom'' of
                     None \<Rightarrow> (Inl KeyError, s\<lparr>disk := f\<rparr>)
                   | Some v \<Rightarrow>
                       if v = JStr nom then (Inr (), \<lparr>disk = f, projet_actuel = None\<rparr>)
                       else (Inr (), s\<lparr>disk := f\<rparr>)))))"

subsection \<open>\<^verbatim>\<open>sauvegarder\<close> (lines 144 to 159)\<close>

definition sauvegarder :: "env \<Rightarrow> world \<Rightarrow> (error + unit) \<times> world" where
  "sauvegarder ev s =
     (case projet_actif s of
        None \<Rightarrow> (Inl (ValueError AucunProjetASauvegarder), s)
      | Some cfg \<Rightarrow>
          (case dict_get cfg ''nom'' of
             None \<Rightarrow> (Inl KeyError, s)
           | Some (JStr n) \<Rightarrow>
               let mon_dossier = path_join (DOSSIER_PROJETS ev) n;
                   mon_fichier = path_join mon_dossier ''config.json''
               in (case json_dump (disk s) (cwd ev) mon_fichier (JObj cfg) of
                     None \<Rightarrow> (Inl (ValueError ErreurSauvegarde), s)
                   | Some f \<Rightarrow> (Inr (), s\<lparr>disk := f\<rparr>))
           | Some v \<Rightarrow> (Inl TypeError, s)))"

subsection \<open>\<^verbatim>\<open>obtenir_produits_case\<close> and \<^verbatim>\<open>definir_produits_case\<close> (lines 161 to 182)\<close>

text \<open>The location and the products are typed as the data model has them: a string
  and a sequence of strings.\<close>

definition obtenir_produits_case :: "string \<Rightarrow> world \<Rightarrow> error + json" where
  "obtenir_produits_case la_case s =
     (case projet_actif s of
        None \<Rightarrow> Inr (JList [])
      | Some cfg \<Rightarrow>
          (case dict_get cfg ''produits'' of
             None \<Rightarrow> Inl KeyError
           | Some (JObj d) \<Rightarrow>
               Inr (case dict_get d la_case of None \<Rightarrow> JList [] | Some v \<Rightarrow> v)
           | Some v \<Rightarrow> Inl AttributeError))"

definition set_produits :: "dict \<Rightarrow> dict \<Rightarrow> world \<Rightarrow> world" where
  "set_produits cfg d s = s\<lparr>projet_actuel := Some (dict_set cfg ''produits'' (JObj d))\<rparr>"

definition definir_produits_case ::
  "env \<Rightarrow> string \<Rightarrow> string list \<Rightarrow> world \<Rightarrow> (error + unit) \<times> world" where
  "definir_produits_case ev la_case produits s =
     (case projet_actif s of
        None \<Rightarrow> (Inl (ValueError AucunProjetActif), s)
      | Some cfg \<Rightarrow>
          (case dict_get cfg ''produits'' of
             None \<Rightarrow> (Inl KeyError, s)
           | Some pl \<Rightarrow>
               if produits \<noteq> [] then
                 (case pl of
                    JObj d \<Rightarrow>
                      sauvegarder ev
                        (set_produits cfg (dict_set d la_case (JList (map JStr produits))) s)
                  | v \<Rightarrow> (Inl TypeError, s))
               else
                 (case py_in la_case pl of
                    Inl e \<Rightarrow> (Inl e, s)
                  | Inr False \<Rightarrow> sauvegarder ev s
                  | Inr True \<Rightarrow>
                      (case pl of
                         JObj d \<Rightarrow> sauvegarder ev (set_produits cfg (dict_del d la_case) s)
                       | v \<Rightarrow> (Inl TypeError, s)))))"

subsection \<open>\<^verbatim>\<open>obtenir_tous_produits_places\<close> and \<^verbatim>\<open>trouver_case_produit\<close> (lines 184 to 207)\<close>

text \<open>What \<^verbatim>\<open>list.extend(v)\<close> appends: the elements of a list, the characters of a
  string, the keys of a \<^verbatim>\<open>dict\<close>.\<close>

fun py_iter :: "json \<Rightarrow> error + json list" where
  "py_iter (JList vs) = Inr vs"
| "py_iter (JStr s) = Inr (map (\<lambda>c. JStr [c]) s)"
| "py_iter (JObj d) = Inr (map (\<lambda>kv. JStr (fst kv)) d)"
| "py_iter v = Inl TypeError"

fun extend_all :: "json list \<Rightarrow> json list \<Rightarrow> error + json list" where
  "extend_all tous_produits [] = Inr tous_produits"
| "extend_all tous_produits (v # vs) =
     (case py_iter v of
        Inl e \<Rightarrow> Inl e
      | Inr xs \<Rightarrow> extend_all (tous_produits @ xs) vs)"

definition obtenir_tous_produits_places :: "world \<Rightarrow> error + json list" where
  "obtenir_tous_produits_places s =
     (case projet_actif s of
        None \<Rightarrow> Inr []
      | Some cfg \<Rightarrow>
          (case dict_get cfg ''produits'' of
             None \<Rightarrow> Inl KeyError
           | Some (JObj d) \<Rightarrow> extend_all [] (map snd d)
           | Some v \<Rightarrow> Inl AttributeError))"

fun trouver_boucle :: "string \<Rightarrow> dict \<Rightarrow> error + string option" where
  "trouver_boucle produit [] = Inr None"
| "trouver_boucle produit ((la_case, produits) # items) =
     (case py_in produit produits of
        Inl e \<Rightarrow> Inl e
      | Inr True \<Rightarrow> Inr (Some la_case)
      | Inr False \<Rightarrow> trouver_boucle produit items)"

definition trouver_case_produit :: "string \<Rightarrow> world \<Rightarrow> error + string option" where
  "trouver_case_produit produit s =
     (case projet_actif s of
        None \<Rightarrow> Inr None
      | Some cfg \<Rightarrow>
          (case dict_get cfg ''produits'' of
             None \<Rightarrow> Inl KeyError
           | Some (JObj d) \<Rightarrow> trouver_boucle produit d
           | Some v \<Rightarrow> Inl AttributeError))"

section \<open>Notions of the specification\<close>

text \<open>A product sequence is a JSON list; it contains a product identifier when the
  identifier is one of its elements.\<close>

fun is_seq :: "json \<Rightarrow> bool" where
  "is_seq (JList vs) = True"
| "is_seq v = False"

fun seq_contains :: "json \<Rightarrow> string \<Rightarrow> bool" where
  "seq_contains (JList vs) x = (JStr x \<in> set vs)"
| "seq_contains v x = False"

text \<open>The invariant of the data model: the placements of the current project bind no
  location to an empty sequence.\<close>

definition produits_sans_vide :: "json \<Rightarrow> bool" where
  "produits_sans_vide v = (case v of JObj d \<Rightarrow> list_all (\<lambda>kv. snd kv \<noteq> JList []) d | _ \<Rightarrow> True)"

definition sans_case_vide :: "world \<Rightarrow> bool" where
  "sans_case_vide s =
     (case projet_actuel s of None \<Rightarrow> True
      | Some cfg \<Rightarrow> (case dict_get cfg ''produits'' of None \<Rightarrow> True
                     | Some v \<Rightarrow> produits_sans_vide v))"

text \<open>The typing of the data model: the placements of the current project are a mapping
  from locations to product sequences.\<close>

definition placements_sequences :: "world \<Rightarrow> bool" where
  "placements_sequences s =
     (case projet_actuel s of None \<Rightarrow> True
      | Some cfg \<Rightarrow> (case dict_get cfg ''produits'' of
                        Some (JObj d) \<Rightarrow> list_all is_seq (map snd d)
                      | _ \<Rightarrow> False))"

text \<open>The placements a document holds, read as they are: the value of the legacy key
  \<^verbatim>\<open>produits_par_case\<close> when the document has it; otherwise the value of
  \<^verbatim>\<open>produits\<close>, where a missing key and a list stand for the empty mapping.\<close>

definition placements_document :: "dict \<Rightarrow> json" where
  "placements_document doc =
     (case dict_get doc ''produits_par_case'' of
        Some v \<Rightarrow> v
      | None \<Rightarrow> (case dict_get doc ''produits'' of
                    None \<Rightarrow> JObj []
                  | Some (JList vs) \<Rightarrow> JObj []
                  | Some v \<Rightarrow> v))"

text \<open>The shape of the component list \<^verbatim>\<open>normpath\<close> builds: no empty component, no
  \<^verbatim>\<open>.\<close>, no separator inside a component, and \<^verbatim>\<open>..\<close> only at the front of a relative
  path.\<close>

definition normalised :: "bool \<Rightarrow> string list \<Rightarrow> bool" where
  "normalised rooted cs =
     (list_all (\<lambda>c. c \<noteq> [] \<and> c \<noteq> ''.'' \<and> CHR ''/'' \<notin> set c) cs
      \<and> (\<exists>k names. cs = replicate k ''..'' @ names \<and> ''..'' \<notin> set names
             \<and> (rooted \<longrightarrow> k = 0)))"

text \<open>The project \<^verbatim>\<open>creer_projet\<close> builds: the four fields and no placements.\<close>

definition projet_initial :: "string \<Rightarrow> string \<Rightarrow> string \<Rightarrow> string \<Rightarrow> dict" where
  "projet_initial nom magasin auteur chemin =
     [(''nom'', JStr nom), (''magasin'', JStr magasin), (''auteur'', JStr auteur),
      (''chemin_plan'', JStr chemin), (''produits'', JObj [])]"

text \<open>A well-formed file system: whatever exists, the root apart, lies in a
  directory. A name that is one component of a path.\<close>

definition tree :: "fs \<Rightarrow> bool" where
  "tree f = (\<forall>p. f p \<noteq> None \<longrightarrow> p = [] \<or> f (butlast p) = Some Dir)"

definition simple_name :: "string \<Rightarrow> bool" where
  "simple_name b = (b \<noteq> [] \<and> CHR ''/'' \<notin> set b \<and> b \<noteq> ''.'' \<and> b \<noteq> ''..'')"

section \<open>Reachable states\<close>

text \<open>What \<^verbatim>\<open>creer_projet\<close> and \<^verbatim>\<open>charger_projet\<close> establish of the current
  project: the four required keys and the key \<^verbatim>\<open>produits\<close> are present, the legacy
  key is absent, and the plan path is a string.\<close>

definition chemin_est_str :: "dict \<Rightarrow> bool" where
  "chemin_est_str cfg = (case dict_get cfg ''chemin_plan'' of Some (JStr c) \<Rightarrow> True | _ \<Rightarrow> False)"

definition projet_ok :: "dict \<Rightarrow> bool" where
  "projet_ok cfg =
     (list_all (dict_has cfg) champs_requis \<and> dict_has cfg ''produits''
      \<and> \<not> dict_has cfg ''produits_par_case'' \<and> chemin_est_str cfg)"

text \<open>The states a store can be in: it starts with no current project on any file
  system, its operations run (whether they return or raise), and the file system may
  change under it between two calls.\<close>

inductive reachable :: "env \<Rightarrow> world \<Rightarrow> bool" for ev :: env where
  start: "reachable ev \<lparr>disk = f, projet_actuel = None\<rparr>"
| disk_change: "reachable ev s \<Longrightarrow> reachable ev (s\<lparr>disk := f\<rparr>)"
| creer: "reachable ev s \<Longrightarrow> reachable ev (snd (creer_projet ev nom magasin auteur plan s))"
| charger: "reachable ev s \<Longrightarrow> reachable ev (snd (charger_projet ev nom s))"
| supprimer: "reachable ev s \<Longrightarrow> reachable ev (snd (supprimer_projet ev nom s))"
| sauver: "reachable ev s \<Longrightarrow> reachable ev (snd (sauvegarder ev s))"
| definir: "reachable ev s \<Longrightarrow> reachable ev (snd (definir_produits_case ev la_case produits s))"

section \<open>Concrete stores\<close>

text \<open>A small file system, used to run the operations on concrete inputs: the
  working directory is the root, the projects live in \<^verbatim>\<open>App1/projets\<close>, and a plan
  file \<^verbatim>\<open>plan.png\<close> stands in the working directory.\<close>

definition ex_env :: env where
  "ex_env = \<lparr>DOSSIER_PROJETS = ''App1/projets'', cwd = []\<rparr>"

definition ex_disk :: fs where
  "ex_disk = [[] \<mapsto> Dir, [''App1''] \<mapsto> Dir, [''App1'', ''projets''] \<mapsto> Dir,
              [''plan.png''] \<mapsto> File (OtherBytes 0)]"

definition ex_world :: world where
  "ex_world = \<lparr>disk = ex_disk, projet_actuel = None\<rparr>"

text \<open>The same file system after the project \<^verbatim>\<open>m\<close> was created and two
  locations were filled, with that project current.\<close>

definition ex_config :: dict where
  "ex_config =
     [(''nom'', JStr ''m''), (''magasin'', JStr ''magasin''), (''auteur'', JStr ''auteur''),
      (''chemin_plan'', JStr ''App1/projets/m/plan.png''),
      (''produits'', JObj [(''A'', JList [JStr ''x'', JStr ''y'']), (''B'', JList [JStr ''z''])])]"

definition ex_disk_m :: fs where
  "ex_disk_m = ex_disk
     ([''App1'', ''projets'', ''m''] \<mapsto> Dir,
      [''App1'', ''projets'', ''m'', ''plan.png''] \<mapsto> File (OtherBytes 0),
      [''App1'', ''projets'', ''m'', ''config.json''] \<mapsto> File (JsonText (JObj ex_config)))"

definition ex_world_m :: world where
  "ex_world_m = \<lparr>disk = ex_disk_m, projet_actuel = Some ex_config\<rparr>"

text \<open>The project as \<^verbatim>\<open>creer_projet\<close> writes it for the name \<^verbatim>\<open>m\<close>.\<close>

definition ex_config0 :: dict where
  "ex_config0 =
     [(''nom'', JStr ''m''), (''magasin'', JStr ''magasin''), (''auteur'', JStr ''auteur''),
      (''chemin_plan'', JStr ''App1/projets/m/plan.png''),
      (''produits'', JObj [])]"

text \<open>Two documents for the project \<^verbatim>\<open>m\<close>: one with the legacy key holding an
  empty list, one whose placements bind a location to an empty list; and the file system
  holding a given document as the project's \<^verbatim>\<open>config.json\<close>, with no current
  project.\<close>

definition ex_doc_legacy :: dict where
  "ex_doc_legacy =
     [(''nom'', JStr ''m''), (''magasin'', JStr ''magasin''), (''auteur'', JStr ''auteur''),
      (''chemin_plan'', JStr ''App1/projets/m/plan.png''),
      (''produits_par_case'', JList [])]"

definition ex_doc_vide :: dict where
  "ex_doc_vide =
     [(''nom'', JStr ''m''), (''magasin'', JStr ''magasin''), (''auteur'', JStr ''auteur''),
      (''chemin_plan'', JStr ''App1/projets/m/plan.png''),
      (''produits'', JObj [(''A'', JList [])])]"

definition ex_world_doc :: "dict \<Rightarrow> world" where
  "ex_world_doc doc =
     \<lparr>disk = ex_disk_m([''App1'', ''projets'', ''m'', ''config.json''] \<mapsto> File (JsonText (JObj doc))),
      projet_actuel = None\<rparr>"

text \<open>The example file system after \<^verbatim>\<open>creer_projet\<close> made the project \<^verbatim>\<open>m\<close>;
  a project name that ends in a backslash, with its directory and plan paths.\<close>

definition ex_disk_cree :: fs where
  "ex_disk_cree = ex_disk
     ([''App1'', ''projets'', ''m''] \<mapsto> Dir,
      [''App1'', ''projets'', ''m'', ''plan.png''] \<mapsto> File (OtherBytes 0),
      [''App1'', ''projets'', ''m'', ''config.json''] \<mapsto> File (JsonText (JObj ex_config0)))"

definition nom_backslash :: string where
  "nom_backslash = [CHR ''a'', CHR 0x5C]"

definition dossier_nb :: string where
  "dossier_nb = ''App1/projets/a'' @ [CHR 0x5C]"

definition plan_nb :: string where
  "plan_nb = ''App1/projets/a'' @ [CHR 0x5C] @ ''/plan.png''"

text \<open>A store whose projects root is \<^verbatim>\<open>/data\<close>, on a file system where the working
  directory also holds a directory \<^verbatim>\<open>App1/projets/m\<close>; and that file system after
  \<^verbatim>\<open>creer_projet\<close> made the project \<^verbatim>\<open>m\<close>.\<close>

definition ex_env_ailleurs :: env where
  "ex_env_ailleurs = \<lparr>DOSSIER_PROJETS = ''/data'', cwd = []\<rparr>"

definition ex_disk_ailleurs :: fs where
  "ex_disk_ailleurs = ex_disk([''data''] \<mapsto> Dir, [''App1'', ''projets'', ''m''] \<mapsto> Dir)"

definition ex_world_ailleurs :: world where
  "ex_world_ailleurs = \<lparr>disk = ex_disk_ailleurs, projet_actuel = None\<rparr>"

definition ex_disk_ailleurs_cree :: fs where
  "ex_disk_ailleurs_cree = ex_disk_ailleurs
     ([''data'', ''m''] \<mapsto> Dir,
      [''App1'', ''projets'', ''m'', ''plan.png''] \<mapsto> File (OtherBytes 0),
      [''data'', ''m'', ''config.json''] \<mapsto> File (JsonText (JObj ex_config0)))"

text \<open>A project of another name, \<^verbatim>\<open>n\<close>.\<close>

definition ex_config_n :: dict where
  "ex_config_n =
     [(''nom'', JStr ''n''), (''magasin'', JStr ''magasin''), (''auteur'', JStr ''auteur''),
      (''chemin_plan'', JStr ''App1/projets/n/plan.png''), (''produits'', JObj [])]"

text \<open>Two more documents for the project \<^verbatim>\<open>m\<close>: one with a list under
  \<^verbatim>\<open>produits\<close>, one with placements under the legacy key.\<close>

definition ex_doc_liste :: dict where
  "ex_doc_liste =
     [(''nom'', JStr ''m''), (''magasin'', JStr ''magasin''), (''auteur'', JStr ''auteur''),
      (''chemin_plan'', JStr ''App1/projets/m/plan.png''),
      (''produits'', JList [])]"

definition ex_doc_ancien :: dict where
  "ex_doc_ancien =
     [(''nom'', JStr ''m''), (''magasin'', JStr ''magasin''), (''auteur'', JStr ''auteur''),
      (''chemin_plan'', JStr ''App1/projets/m/plan.png''),
      (''produits_par_case'', JObj [(''A'', JList [JStr ''x''])])]"

text \<open>
  A store whose working directory also holds an image \<^verbatim>\<open>carte.png\<close>, and the same store
  after a project named \<^verbatim>\<open>m/plan.png/../.\<close> was created from that image.
\<close>

definition ex_disk_carte :: fs where
  "ex_disk_carte = ex_disk([''carte.png''] \<mapsto> File (OtherBytes 1))"

definition ex_disk_carte_cree :: fs where
  "ex_disk_carte_cree = ex_disk_carte
     ([''App1'', ''projets'', ''m''] \<mapsto> Dir,
      [''App1'', ''projets'', ''m'', ''plan.png''] \<mapsto> Dir,
      [''App1'', ''projets'', ''m'', ''plan.png'', ''carte.png''] \<mapsto> File (OtherBytes 1))"

text \<open>A document for the project \<^verbatim>\<open>m\<close> whose placements bind a location to a string,
  and the project that \<^verbatim>\<open>charger_projet\<close> makes of \<open>ex_doc_legacy\<close>.\<close>

definition ex_doc_chaine :: dict where
  "ex_doc_chaine =
     [(''nom'', JStr ''m''), (''magasin'', JStr ''magasin''), (''auteur'', JStr ''auteur''),
      (''chemin_plan'', JStr ''App1/projets/m/plan.png''),
      (''produits'', JObj [(''A'', JStr ''xyz'')])]"

definition ex_config_liste :: dict where
  "ex_config_liste =
     [(''nom'', JStr ''m''), (''magasin'', JStr ''magasin''), (''auteur'', JStr ''auteur''),
      (''chemin_plan'', JStr ''App1/projets/m/plan.png''), (''produits'', JList [])]"

text \<open>A project name with a NUL character, and its directory path.\<close>

definition nom_nul :: string where
  "nom_nul = [CHR ''m'', CHR 0x00]"

definition dossier_nul :: string where
  "dossier_nul = ''App1/projets/'' @ nom_nul"

section \<open>Dictionaries\<close>

lemma dict_get_set_same: "dict_get (dict_set d k v) k = Some v"
  by (induction d) (auto simp: dict_get_def)

lemma dict_keys_set: "set (dict_keys (dict_set d k v)) = insert k (set (dict_keys d))"
proof (induction d)
  case Nil
  show ?case by (simp add: dict_keys_def)
next
  case (Cons kv d)
  obtain k' v' where "kv = (k', v')" by (cases kv)
  with Cons show ?case by (simp add: dict_keys_def insert_commute)
qed

lemma dict_has_set [simp]: "dict_has (dict_set d k v) k' = (k' = k \<or> dict_has d k')"
  by (simp add: dict_has_def dict_keys_set)

lemma dict_has_del [simp]: "dict_has (dict_del d k) k' = (k' \<noteq> k \<and> dict_has d k')"
  by (auto simp: dict_has_def dict_keys_def dict_del_def)

lemma dict_get_set: "dict_get (dict_set d k v) k' = (if k' = k then Some v else dict_get d k')"
  by (induction d) (auto simp: dict_get_def)

lemma dict_get_del: "dict_get (dict_del d k) k' = (if k' = k then None else dict_get d k')"
  by (induction d) (auto simp: dict_get_def dict_del_def)

lemma dict_has_get: "dict_has d k = (dict_get d k \<noteq> None)"
  by (induction d) (auto simp: dict_has_def dict_keys_def dict_get_def)

lemma dict_del_absent: "\<not> dict_has d k \<Longrightarrow> dict_del d k = d"
  by (induction d) (auto simp: dict_has_def dict_keys_def dict_del_def)

lemma list_all_dict_set: "list_all P d \<Longrightarrow> P (k, v) \<Longrightarrow> list_all P (dict_set d k v)"
  by (induction d) auto

lemma list_all_dict_del: "list_all P d \<Longrightarrow> list_all P (dict_del d k)"
  by (simp add: dict_del_def list_all_iff)

section \<open>Paths\<close>

lemma split_sep_nonempty [simp]: "split_sep s \<noteq> []"
  by (induction s) (auto split: list.splits)

lemma split_sep_append: "split_sep (a @ CHR ''/'' # b) = split_sep a @ split_sep b"
proof (induction a)
  case Nil
  show ?case by simp
next
  case (Cons c a)
  obtain w ws where "split_sep a = w # ws" by (cases "split_sep a") auto
  with Cons show ?case by simp
qed

lemma split_sep_no_sep: "CHR ''/'' \<notin> set b \<Longrightarrow> split_sep b = [b]"
  by (induction b) auto

lemma path_join_nonempty: "b \<noteq> [] \<Longrightarrow> path_join a b \<noteq> []"
  by (simp add: path_join_def)

lemma path_join_eq_Nil: "path_join a b = [] \<longleftrightarrow> a = [] \<and> b = []"
  by (auto simp: path_join_def)

lemma config_json_name:
  "''config.json'' \<noteq> [] \<and> CHR ''/'' \<notin> set ''config.json''
   \<and> ''config.json'' \<noteq> ''.'' \<and> ''config.json'' \<noteq> ''..''"
  by simp

lemma split_sep_no_slash: "c \<in> set (split_sep p) \<Longrightarrow> CHR ''/'' \<notin> set c"
proof (induction p arbitrary: c)
  case Nil
  then show ?case by simp
next
  case (Cons x p)
  obtain w ws where ws: "split_sep p = w # ws" by (cases "split_sep p") auto
  with Cons show ?case by (auto split: if_splits)
qed

lemma split_sep_chars: "c \<in> set (split_sep p) \<Longrightarrow> set c \<subseteq> set p"
proof (induction p arbitrary: c)
  case Nil
  then show ?case by simp
next
  case (Cons x p)
  obtain w ws where ws: "split_sep p = w # ws" by (cases "split_sep p") auto
  with Cons show ?case by (fastforce split: if_splits)
qed

lemma split_join:
  "cs \<noteq> [] \<Longrightarrow> list_all (\<lambda>c. CHR ''/'' \<notin> set c) cs \<Longrightarrow> split_sep (join_sep cs) = cs"
proof (induction cs rule: join_sep.induct)
  case 1
  then show ?case by simp
next
  case (2 x)
  then show ?case by (simp add: split_sep_no_sep)
next
  case (3 x y ys)
  then show ?case by (simp add: split_sep_append split_sep_no_sep)
qed

lemma dotdot_prefix:
  "xs @ ''..'' # ys = replicate k ''..'' @ names \<Longrightarrow> ''..'' \<notin> set names \<Longrightarrow>
   xs = replicate (length xs) ''..'' \<and> length xs < k"
proof (induction k arbitrary: xs)
  case 0
  then have "''..'' \<in> set names" by (metis append_Nil in_set_conv_decomp replicate_0)
  with 0 show ?case by simp
next
  case (Suc k)
  show ?case
  proof (cases xs)
    case Nil
    then show ?thesis by simp
  next
    case (Cons x xs')
    with Suc.prems have "x = ''..''" and "xs' @ ''..'' # ys = replicate k ''..'' @ names"
      by simp_all
    with Suc.IH [of xs'] Suc.prems(2) Cons show ?thesis by simp
  qed
qed

lemma normalised_loop_fix:
  "normalised r (st @ cs) \<Longrightarrow> normpath_loop r st cs = st @ cs"
proof (induction cs arbitrary: st)
  case Nil
  then show ?case by simp
next
  case (Cons c cs)
  from Cons.prems have c: "c \<noteq> []" "c \<noteq> ''.''" by (simp_all add: normalised_def)
  from Cons.prems have n': "normalised r ((st @ [c]) @ cs)" by simp
  show ?case
  proof (cases "c = ''..''")
    case False
    with c Cons.IH [OF n'] show ?thesis by simp
  next
    case True
    from Cons.prems obtain k names where
      k: "st @ ''..'' # cs = replicate k ''..'' @ names" "''..'' \<notin> set names" "r \<longrightarrow> k = 0"
      unfolding normalised_def True by blast
    from dotdot_prefix [OF k(1,2)] have st: "st = replicate (length st) ''..''" "length st < k"
      by simp_all
    from st(2) k(3) have nr: "\<not> r" by auto
    have "st = [] \<or> last st = ''..''"
      using st(1) by (metis last_replicate length_0_conv)
    with nr c True Cons.IH [OF n'] show ?thesis by auto
  qed
qed

lemma normalised_loop:
  "normalised r st \<Longrightarrow> list_all (\<lambda>c. CHR ''/'' \<notin> set c) cs \<Longrightarrow>
   normalised r (normpath_loop r st cs)"
proof (induction cs arbitrary: st)
  case Nil
  then show ?case by simp
next
  case (Cons c cs)
  from Cons.prems(2) have cs: "list_all (\<lambda>c. CHR ''/'' \<notin> set c) cs" and cc: "CHR ''/'' \<notin> set c"
    by simp_all
  from Cons.prems(1) obtain k names where
    k: "st = replicate k ''..'' @ names" "''..'' \<notin> set names" "r \<longrightarrow> k = 0"
    and la: "list_all (\<lambda>c. c \<noteq> [] \<and> c \<noteq> ''.'' \<and> CHR ''/'' \<notin> set c) st"
    unfolding normalised_def by blast
  consider (skip) "c = [] \<or> c = ''.''"
    | (name) "c \<noteq> []" "c \<noteq> ''.''" "c \<noteq> ''..''"
    | (up0) "c = ''..''" "\<not> r" "st = []"
    | (up1) "c = ''..''" "st \<noteq> []" "last st = ''..''"
    | (pop) "c = ''..''" "st \<noteq> []" "last st \<noteq> ''..''"
    | (stay) "c = ''..''" "st = []" "r"
    by blast
  then show ?case
  proof cases
    case skip
    with Cons.IH [OF Cons.prems(1) cs] show ?thesis by auto
  next
    case name
    have "normalised r (st @ [c])"
      unfolding normalised_def
    proof (intro conjI exI)
      show "st @ [c] = replicate k ''..'' @ (names @ [c])" by (simp add: k(1))
      show "''..'' \<notin> set (names @ [c])" using k(2) name by simp
      show "r \<longrightarrow> k = 0" by (rule k(3))
      show "list_all (\<lambda>c. c \<noteq> [] \<and> c \<noteq> ''.'' \<and> CHR ''/'' \<notin> set c) (st @ [c])"
        using la name cc by simp
    qed
    from Cons.IH [OF this cs] name show ?thesis by simp
  next
    case up0
    have "normalised r [''..'']"
      unfolding normalised_def
    proof (intro conjI exI)
      show "[''..''] = replicate 1 ''..'' @ []" by simp
      show "''..'' \<notin> set []" by simp
      show "r \<longrightarrow> (1::nat) = 0" using up0 by simp
      show "list_all (\<lambda>c. c \<noteq> [] \<and> c \<noteq> ''.'' \<and> CHR ''/'' \<notin> set c) [''..'']" by simp
    qed
    from Cons.IH [OF this cs] up0 show ?thesis by simp
  next
    case up1
    from up1(2,3) k(1,2) have nn: "names = []"
      by (metis append_Nil2 last_appendR last_in_set)
    with up1(2) k(1) have kpos: "k \<noteq> 0" by auto
    have "normalised r (st @ [''..''])"
      unfolding normalised_def
    proof (intro conjI exI)
      show "st @ [''..''] = replicate (Suc k) ''..'' @ []"
        using k(1) nn by (simp add: replicate_append_same)
      show "''..'' \<notin> set []" by simp
      show "r \<longrightarrow> Suc k = 0" using k(3) kpos by simp
      show "list_all (\<lambda>c. c \<noteq> [] \<and> c \<noteq> ''.'' \<and> CHR ''/'' \<notin> set c) (st @ [''..''])"
        using la by simp
    qed
    from Cons.IH [OF this cs] up1 show ?thesis by simp
  next
    case pop
    from pop(2,3) k(1) have nn: "names \<noteq> []"
      by (metis append_Nil2 last_replicate replicate_empty)
    have "normalised r (butlast st)"
      unfolding normalised_def
    proof (intro conjI exI)
      show "butlast st = replicate k ''..'' @ butlast names"
        using k(1) nn by (simp add: butlast_append)
      show "''..'' \<notin> set (butlast names)" using k(2) by (meson in_set_butlastD)
      show "r \<longrightarrow> k = 0" by (rule k(3))
      show "list_all (\<lambda>c. c \<noteq> [] \<and> c \<noteq> ''.'' \<and> CHR ''/'' \<notin> set c) (butlast st)"
        using la by (auto simp: list_all_iff dest: in_set_butlastD)
    qed
    from Cons.IH [OF this cs] pop show ?thesis by simp
  next
    case stay
    with Cons.IH [OF Cons.prems(1) cs] show ?thesis by simp
  qed
qed

lemma normalised_Nil: "normalised r []"
  unfolding normalised_def by (intro conjI exI [of _ 0] exI [of _ "[]"]) simp_all

lemma normpath_loop_skip_empty:
  "normpath_loop r st (replicate n [] @ cs) = normpath_loop r st cs"
  by (induction n) simp_all

lemma split_sep_slashes:
  "split_sep (replicate n (CHR ''/'') @ p) = replicate n [] @ split_sep p"
  by (induction n) simp_all

lemma split_sep_only_slashes:
  "split_sep (replicate n (CHR ''/'')) = replicate n [] @ [[]]"
  by (induction n) simp_all

lemma normalised_hd:
  "normalised r cs \<Longrightarrow> cs \<noteq> [] \<Longrightarrow> join_sep cs \<noteq> [] \<and> hd (join_sep cs) \<noteq> CHR ''/''"
proof -
  assume n: "normalised r cs" and ne: "cs \<noteq> []"
  then obtain c cs' where cs: "cs = c # cs'" by (cases cs) auto
  with n have c: "c \<noteq> []" "CHR ''/'' \<notin> set c" by (simp_all add: normalised_def)
  then obtain x c' where xc: "c = x # c'" "x \<noteq> CHR ''/''" by (cases c) auto
  show ?thesis by (cases cs') (simp_all add: cs xc)
qed

lemma initial_slashes_cases: "initial_slashes p = 0 \<or> initial_slashes p = 1 \<or> initial_slashes p = 2"
  by (simp add: initial_slashes_def)

lemma initial_slashes_result:
  assumes "normalised r cs" "n = 0 \<or> n = 1 \<or> n = 2" "n = 0 \<longrightarrow> cs \<noteq> []"
  shows "initial_slashes (replicate n (CHR ''/'') @ join_sep cs) = n"
proof (cases "cs = []")
  case True
  with assms(2,3) show ?thesis
    by (auto simp: initial_slashes_def numeral_2_eq_2)
next
  case False
  from normalised_hd [OF assms(1) False] obtain x xs where
    j: "join_sep cs = x # xs" "x \<noteq> CHR ''/''"
    by (cases "join_sep cs") auto
  from assms(2) show ?thesis
    by (auto simp: initial_slashes_def j numeral_2_eq_2)
qed

lemma normpath_unfold:
  "p \<noteq> [] \<Longrightarrow> initial_slashes p = n \<Longrightarrow>
   normpath_loop (n \<noteq> 0) [] (split_sep p) = cs \<Longrightarrow>
   normpath p = (if replicate n (CHR ''/'') @ join_sep cs = [] then ''.''
                 else replicate n (CHR ''/'') @ join_sep cs)"
  by (auto simp: normpath_def Let_def)

lemma normpath_dot: "normpath ''.'' = ''.''"
  by (simp add: normpath_def initial_slashes_def)

lemma normpath_idem: "normpath (normpath p) = normpath p"
proof (cases "p = []")
  case True
  then have "normpath p = ''.''" by (simp add: normpath_def)
  then show ?thesis by (simp add: normpath_dot)
next
  case False
  define n where "n = initial_slashes p"
  define r where "r = (n \<noteq> 0)"
  define cs where "cs = normpath_loop r [] (split_sep p)"
  define res where "res = replicate n (CHR ''/'') @ join_sep cs"
  have np: "normpath p = (if res = [] then ''.'' else res)"
    using False by (auto simp: normpath_def Let_def n_def r_def cs_def res_def)
  have slash: "list_all (\<lambda>c. CHR ''/'' \<notin> set c) (split_sep p)"
    by (simp add: list_all_iff split_sep_no_slash)
  have ncs: "normalised r cs"
    unfolding cs_def by (rule normalised_loop [OF normalised_Nil slash])
  have n012: "n = 0 \<or> n = 1 \<or> n = 2" unfolding n_def by (rule initial_slashes_cases)
  show ?thesis
  proof (cases "res = []")
    case True
    with np have "normpath p = ''.''" by simp
    then show ?thesis by (simp add: normpath_dot)
  next
    case nonempty: False
    then have n0: "n = 0 \<longrightarrow> cs \<noteq> []" by (auto simp: res_def)
    have ini: "initial_slashes res = n"
      unfolding res_def by (rule initial_slashes_result [OF ncs n012 n0])
    have loop: "normpath_loop r [] (split_sep res) = cs"
    proof (cases "cs = []")
      case True
      then show ?thesis
        by (simp add: res_def split_sep_only_slashes normpath_loop_skip_empty)
    next
      case False
      from ncs have "list_all (\<lambda>c. CHR ''/'' \<notin> set c) cs"
        by (simp add: normalised_def list_all_iff)
      with False have "split_sep (join_sep cs) = cs" by (rule split_join)
      moreover from ncs have "normpath_loop r [] cs = [] @ cs"
        by (intro normalised_loop_fix) simp
      ultimately show ?thesis
        by (simp add: res_def split_sep_slashes normpath_loop_skip_empty)
    qed
    have l2: "normpath_loop (n \<noteq> 0) [] (split_sep res) = cs"
      using loop by (simp add: r_def)
    have "normpath res = res"
      using normpath_unfold [OF nonempty ini l2] nonempty by (simp add: res_def)
    with nonempty show ?thesis by (simp add: np)
  qed
qed

lemma normpath_loop_set:
  "c \<in> set (normpath_loop r st cs) \<Longrightarrow> c \<in> set st \<or> c \<in> set cs"
proof (induction cs arbitrary: st)
  case Nil
  then show ?case by simp
next
  case (Cons x cs)
  have "normpath_loop r st (x # cs) = normpath_loop r st cs
      \<or> normpath_loop r st (x # cs) = normpath_loop r (st @ [x]) cs
      \<or> normpath_loop r st (x # cs) = normpath_loop r (butlast st) cs"
    by simp
  then consider (a) "normpath_loop r st (x # cs) = normpath_loop r st cs"
    | (b) "normpath_loop r st (x # cs) = normpath_loop r (st @ [x]) cs"
    | (c) "normpath_loop r st (x # cs) = normpath_loop r (butlast st) cs"
    by blast
  then show ?case
  proof cases
    case a
    with Cons.prems Cons.IH [of st] show ?thesis by auto
  next
    case b
    with Cons.prems Cons.IH [of "st @ [x]"] show ?thesis by auto
  next
    case c
    with Cons.prems Cons.IH [of "butlast st"] show ?thesis by (auto dest: in_set_butlastD)
  qed
qed

lemma join_sep_chars: "x \<in> set (join_sep cs) \<Longrightarrow> x = CHR ''/'' \<or> (\<exists>c \<in> set cs. x \<in> set c)"
  by (induction cs rule: join_sep.induct) auto

lemma normpath_chars:
  assumes "x \<in> set (normpath p)"
  shows "x \<in> set p \<or> x = CHR ''/'' \<or> x = CHR ''.''"
proof (cases "p = []")
  case True
  with assms show ?thesis by (simp add: normpath_def)
next
  case False
  define cs where "cs = normpath_loop (initial_slashes p \<noteq> 0) [] (split_sep p)"
  from assms False have "x = CHR ''.'' \<or> x = CHR ''/'' \<or> x \<in> set (join_sep cs)"
    by (auto simp: normpath_def Let_def cs_def split: if_splits)
  moreover have "x \<in> set p" if "c \<in> set cs" "x \<in> set c" for c
  proof -
    from that(1) have "c \<in> set (split_sep p)"
      unfolding cs_def by (auto dest: normpath_loop_set)
    with that(2) split_sep_chars [of c p] show ?thesis by auto
  qed
  ultimately show ?thesis by (auto dest: join_sep_chars)
qed

lemma replace_backslash_id: "CHR 0x5C \<notin> set p \<Longrightarrow> replace_backslash p = p"
  by (induction p) (auto simp: replace_backslash_def)

lemma path_join_chars: "x \<in> set (path_join a b) \<Longrightarrow> x \<in> set a \<or> x \<in> set b \<or> x = CHR ''/''"
  by (auto simp: path_join_def split: if_splits)

lemma path_join_right_chars: "set b \<subseteq> set (path_join a b)"
  by (auto simp: path_join_def)

lemma basename_chars: "set (basename p) \<subseteq> set p"
  unfolding basename_def by (auto dest: set_takeWhileD)

lemma splitext_chars: "set (splitext_ext p) \<subseteq> set p"
proof -
  have "set (rev (takeWhile (\<lambda>c. c \<noteq> CHR ''.'') (rev (basename p)))) \<subseteq> set (basename p)"
    by (auto dest: set_takeWhileD)
  with basename_chars [of p] show ?thesis
    by (auto simp: splitext_ext_def Let_def)
qed

lemma basename_no_sep: "CHR ''/'' \<notin> set (basename p)"
  unfolding basename_def using set_takeWhileD by fastforce

lemma splitext_no_sep: "CHR ''/'' \<notin> set (splitext_ext p)"
proof -
  have "set (rev (takeWhile (\<lambda>c. c \<noteq> CHR ''.'') (rev (basename p)))) \<subseteq> set (basename p)"
    by (auto dest: set_takeWhileD)
  with basename_no_sep [of p] show ?thesis
    by (auto simp: splitext_ext_def Let_def)
qed

lemma simple_plan: "simple_name (''plan'' @ splitext_ext p)"
  using splitext_no_sep [of p] by (simp add: simple_name_def)

lemma path_join_simple:
  "a \<noteq> [] \<Longrightarrow> last a \<noteq> CHR ''/'' \<Longrightarrow> simple_name b \<Longrightarrow> path_join a b = a @ CHR ''/'' # b"
  by (cases b) (auto simp: path_join_def simple_name_def)

lemma normpath_asset:
  assumes "simple_name nom" "simple_name pn"
  shows "normpath (path_join (path_join (path_join ''App1'' ''projets'') nom) pn)
         = path_join (path_join ''App1/projets'' nom) pn"
proof -
  let ?cs = "[''App1'', ''projets'', nom, pn]"
  from assms have n: "nom \<noteq> []" "CHR ''/'' \<notin> set nom" "nom \<noteq> ''.''" "nom \<noteq> ''..''"
    and p: "pn \<noteq> []" "CHR ''/'' \<notin> set pn" "pn \<noteq> ''.''" "pn \<noteq> ''..''"
    by (simp_all add: simple_name_def)
  have j0: "path_join ''App1'' ''projets'' = ''App1/projets''" by (simp add: path_join_def)
  have j1: "path_join ''App1/projets'' nom = ''App1/projets/'' @ nom"
    using assms(1) by (subst path_join_simple) simp_all
  have l1: "last (''App1/projets/'' @ nom) \<noteq> CHR ''/''"
    using n(1,2) by (metis last_appendR last_in_set)
  have j2: "path_join (''App1/projets/'' @ nom) pn = ''App1/projets/'' @ nom @ CHR ''/'' # pn"
    using assms(2) l1 by (subst path_join_simple) simp_all
  let ?x = "''App1/projets/'' @ nom @ CHR ''/'' # pn"
  have x: "?x = join_sep ?cs" by simp
  have sp: "split_sep ?x = ?cs"
    unfolding x using n(2) p(2) by (intro split_join) simp_all
  have nz: "normalised False ?cs"
    unfolding normalised_def
  proof (intro conjI exI)
    show "?cs = replicate 0 ''..'' @ ?cs" by simp
    show "''..'' \<notin> set ?cs" using n p by simp
    show "False \<longrightarrow> (0::nat) = 0" by simp
    show "list_all (\<lambda>c. c \<noteq> [] \<and> c \<noteq> ''.'' \<and> CHR ''/'' \<notin> set c) ?cs"
      using n p by simp
  qed
  then have lp: "normpath_loop (0 \<noteq> (0::nat)) [] (split_sep ?x) = ?cs"
    unfolding sp using normalised_loop_fix [of False "[]" ?cs] by simp
  have ini: "initial_slashes ?x = 0" by (simp add: initial_slashes_def)
  have ne: "?x \<noteq> []" by simp
  have "normpath ?x = ?x"
    using normpath_unfold [OF ne ini lp] by simp
  then show ?thesis by (simp only: j0 j1 j2)
qed

section \<open>Path resolution and files\<close>

lemma walk_append:
  "walk f cur (xs @ ys) = (case walk f cur xs of None \<Rightarrow> None | Some q \<Rightarrow> walk f q ys)"
  by (induction xs arbitrary: cur) auto

lemma walk_cong_dirs:
  "(\<And>p. (f p = Some Dir) = (g p = Some Dir)) \<Longrightarrow> walk f cur xs = walk g cur xs"
  by (induction xs arbitrary: cur) auto

lemma resolve_Some_nul: "resolve f wd p = Some q \<Longrightarrow> p \<noteq> [] \<and> CHR 0x00 \<notin> set p"
  by (auto simp: resolve_def split: if_splits)

lemma resolve_join_name:
  assumes "a \<noteq> []" "b \<noteq> []" "CHR ''/'' \<notin> set b" "b \<noteq> ''.''" "b \<noteq> ''..''"
    and "CHR 0x00 \<notin> set b"
  shows "resolve f wd (path_join a b) =
           (case resolve f wd a of None \<Rightarrow> None
            | Some q \<Rightarrow> if f q = Some Dir then Some (q @ [b]) else None)"
proof -
  from assms(2,3) have hb: "hd b \<noteq> CHR ''/''" by (cases b) auto
  have st: "start_dir wd (a @ x) = start_dir wd a" for x
    using assms(1) by (cases a) (auto simp: start_dir_def)
  have wb: "walk f q [b] = (if f q = Some Dir then Some (q @ [b]) else None)" for q
    using assms(2,4,5) by (simp add: step_def)
  have we: "walk f q [[]] = (if f q = Some Dir then Some q else None)" for q
    by (simp add: step_def)
  show ?thesis
  proof (cases "last a = CHR ''/''")
    case True
    with assms(1) obtain a' where a: "a = a' @ ''/''"
      by (metis append_butlast_last_id)
    have s1: "split_sep a = split_sep a' @ [[]]" by (simp add: a split_sep_append)
    have s2: "split_sep (a @ b) = split_sep a' @ [b]"
      by (simp add: a split_sep_append split_sep_no_sep assms(3))
    have pj: "path_join a b = a @ b" using True hb assms by (simp add: path_join_def)
    show ?thesis
      using assms(1,6)
      by (auto simp: resolve_def pj st s1 s2 walk_append wb we simp del: walk.simps
          split: option.splits)
  next
    case False
    have pj: "path_join a b = a @ CHR ''/'' # b" using False hb assms by (simp add: path_join_def)
    have s2: "split_sep (a @ CHR ''/'' # b) = split_sep a @ [b]"
      by (simp add: split_sep_append split_sep_no_sep assms(3))
    show ?thesis
      using assms(1,6)
      by (auto simp: resolve_def pj st s2 walk_append wb simp del: walk.simps
          split: option.splits)
  qed
qed

lemma write_file_Some:
  "write_file f wd p c = Some f' \<Longrightarrow>
   \<exists>q. resolve f wd p = Some q \<and> f q \<noteq> Some Dir \<and> f' = f(q \<mapsto> File c)"
  by (auto simp: write_file_def split: option.splits if_splits)

lemma resolve_write:
  "f q \<noteq> Some Dir \<Longrightarrow> resolve (f(q \<mapsto> File c)) wd p = resolve f wd p"
  unfolding resolve_def
  by (simp add: walk_cong_dirs [of "f(q \<mapsto> File c)" f])

lemma resolve_config:
  "a \<noteq> [] \<Longrightarrow> resolve f wd (path_join a ''config.json'') =
     (case resolve f wd a of None \<Rightarrow> None
      | Some q \<Rightarrow> if f q = Some Dir then Some (q @ [''config.json'']) else None)"
  by (rule resolve_join_name) simp_all

lemma json_dump_then_load:
  assumes "json_dump f wd (path_join a ''config.json'') v = Some f'" "a \<noteq> []"
  shows "isdir f' wd a \<and> json_load f' wd (path_join a ''config.json'') = Some v"
proof -
  from assms(1) obtain q where q: "resolve f wd (path_join a ''config.json'') = Some q"
      "f q \<noteq> Some Dir" "f' = f(q \<mapsto> File (JsonText v))"
    unfolding json_dump_def by (blast dest: write_file_Some)
  from q(1) assms(2) obtain r where r: "resolve f wd a = Some r" "f r = Some Dir"
      "q = r @ [''config.json'']"
    by (auto simp: resolve_config split: option.splits if_splits)
  have res: "resolve f' wd p = resolve f wd p" for p
    unfolding q(3) using q(2) by (rule resolve_write)
  have "f' r = Some Dir" using r(2,3) by (simp add: q(3))
  then have 1: "isdir f' wd a" by (simp add: isdir_def res r(1))
  have "f' q = Some (File (JsonText v))" by (simp add: q(3))
  then have 2: "json_load f' wd (path_join a ''config.json'') = Some v"
    by (simp add: json_load_def read_file_def res q(1))
  from 1 2 show ?thesis ..
qed

lemma walk_mono:
  "walk f cur cs = Some q \<Longrightarrow> (\<And>p. f p = Some Dir \<Longrightarrow> g p = Some Dir) \<Longrightarrow>
   walk g cur cs = Some q"
  by (induction cs arbitrary: cur) (auto split: if_splits)

lemma resolve_mono:
  "resolve f wd p = Some q \<Longrightarrow> (\<And>p. f p = Some Dir \<Longrightarrow> g p = Some Dir) \<Longrightarrow>
   resolve g wd p = Some q"
  unfolding resolve_def by (auto split: if_splits intro: walk_mono)

lemma mkdir_walk_existing:
  "walk f cur cs = Some q \<Longrightarrow> f q = Some Dir \<Longrightarrow> mkdir_walk f cur cs = (f, Some q)"
proof (induction cs arbitrary: cur)
  case Nil
  then show ?case by simp
next
  case (Cons c cs)
  from Cons.prems(1) have cur: "f cur = Some Dir" and w: "walk f (step cur c) cs = Some q"
    by (auto split: if_splits)
  have "f (step cur c) \<noteq> None"
  proof (cases cs)
    case Nil
    with w Cons.prems(2) show ?thesis by simp
  next
    case (Cons c' cs')
    with w show ?thesis by (auto split: if_splits)
  qed
  with cur Cons.IH [OF w Cons.prems(2)] show ?case by (auto simp: Let_def)
qed

lemma split_join_name:
  assumes "a \<noteq> []" "simple_name b" "CHR 0x00 \<notin> set a"
  shows "\<exists>cs. split_sep (path_join a b) = cs @ [b]
           \<and> (\<forall>f q. (walk f (start_dir wd a) cs = Some q \<and> f q = Some Dir)
                     = (resolve f wd a = Some q \<and> f q = Some Dir))"
proof -
  from assms(2) have b: "b \<noteq> []" "CHR ''/'' \<notin> set b" by (simp_all add: simple_name_def)
  then have hb: "hd b \<noteq> CHR ''/''" by (cases b) auto
  show ?thesis
  proof (cases "last a = CHR ''/''")
    case True
    with assms(1) obtain a' where a: "a = a' @ ''/''" by (metis append_butlast_last_id)
    have s1: "split_sep a = split_sep a' @ [[]]" by (simp add: a split_sep_append)
    have s2: "split_sep (path_join a b) = split_sep a' @ [b]"
      using True hb b assms(1) by (simp add: path_join_def a split_sep_append split_sep_no_sep)
    have we: "walk f q [[]] = (if f q = Some Dir then Some q else None)" for f q
      by (simp add: step_def)
    have "(walk f (start_dir wd a) (split_sep a') = Some q \<and> f q = Some Dir)
          = (resolve f wd a = Some q \<and> f q = Some Dir)" for f q
      using assms(1,3)
      by (auto simp: resolve_def s1 walk_append we simp del: walk.simps split: option.splits)
    with s2 show ?thesis by blast
  next
    case False
    have s2: "split_sep (path_join a b) = split_sep a @ [b]"
      using False hb b assms(1) by (simp add: path_join_def split_sep_append split_sep_no_sep)
    have "(walk f (start_dir wd a) (split_sep a) = Some q \<and> f q = Some Dir)
          = (resolve f wd a = Some q \<and> f q = Some Dir)" for f q
      using assms(1,3) by (simp add: resolve_def)
    with s2 show ?thesis by blast
  qed
qed

lemma start_dir_join: "a \<noteq> [] \<Longrightarrow> simple_name b \<Longrightarrow> start_dir wd (path_join a b) = start_dir wd a"
  by (cases a; cases b) (auto simp: start_dir_def path_join_def simple_name_def)

lemma makedirs_None_nul: "makedirs f wd p = (None, f1) \<Longrightarrow> CHR 0x00 \<notin> set p"
  by (auto simp: makedirs_def Let_def split: if_splits prod.splits option.splits)

lemma makedirs_dans_dossier:
  assumes a: "a \<noteq> []" and b: "simple_name b" and z: "CHR 0x00 \<notin> set b"
    and r: "resolve f wd a = Some q0" "f q0 = Some Dir" and n: "f (q0 @ [b]) = None"
  shows "makedirs f wd (path_join a b) = (None, f(q0 @ [b] \<mapsto> Dir))"
proof -
  from r(1) have za: "CHR 0x00 \<notin> set a" by (simp add: resolve_Some_nul)
  from split_join_name [OF a b za, of wd] obtain cs where
    cs: "split_sep (path_join a b) = cs @ [b]"
    and w: "walk f (start_dir wd a) cs = Some q0"
    using r by blast
  from b have bne: "b \<noteq> []" "b \<noteq> ''.''" "b \<noteq> ''..''" by (simp_all add: simple_name_def)
  have zj: "CHR 0x00 \<notin> set (path_join a b)"
    using za z by (auto dest: path_join_chars)
  have mk: "mkdir_walk f (start_dir wd a) cs = (f, Some q0)"
    using w r(2) by (rule mkdir_walk_existing)
  show ?thesis
    using bne r(2) n zj
    by (simp add: makedirs_def cs Let_def start_dir_join [OF a b] mk)
qed

lemma tree_below_absent: "tree f \<Longrightarrow> f q = None \<Longrightarrow> f (q @ [x]) = None"
  unfolding tree_def by (metis butlast_snoc option.distinct(1) snoc_eq_iff_butlast)

section \<open>The operations\<close>

lemma trouver_boucle_find:
  "list_all is_seq (map snd d) \<Longrightarrow>
   trouver_boucle produit d = Inr (map_option fst (find (\<lambda>kv. seq_contains (snd kv) produit) d))"
proof (induction d)
  case Nil
  then show ?case by simp
next
  case (Cons kv d)
  obtain k v where kv: "kv = (k, v)" by (cases kv)
  with Cons.prems obtain vs where v: "v = JList vs" by (cases v) auto
  from Cons show ?case by (simp add: kv v)
qed

lemma all_in_obj: "all_in ks (JObj d) = Inr (list_all (dict_has d) ks)"
  by (induction ks) (auto split: bool.splits)

lemma compat_produits_has:
  "dict_has (compat_produits d) k =
     (k \<noteq> ''produits_par_case'' \<and> (k = ''produits'' \<or> dict_has d k))"
  by (auto simp: compat_produits_def dict_has_get dict_get_set dict_get_del
        split: option.splits json.splits)

lemma compat_produits_get_other:
  "k \<noteq> ''produits'' \<Longrightarrow> k \<noteq> ''produits_par_case'' \<Longrightarrow>
   dict_get (compat_produits d) k = dict_get d k"
  by (auto simp: compat_produits_def dict_get_set dict_get_del split: option.splits json.splits)

lemma compat_produits_ok:
  assumes "list_all (dict_has d) champs_requis" "chemin_est_str d"
  shows "projet_ok (compat_produits d)"
  using assms
  by (simp add: projet_ok_def compat_produits_has champs_requis_def chemin_est_str_def
      compat_produits_get_other)

lemma charger_projet_actuel:
  "projet_actuel (snd (charger_projet ev nom s)) = projet_actuel s
   \<or> (\<exists>cfg. projet_actuel (snd (charger_projet ev nom s)) = Some cfg \<and> projet_ok cfg)"
proof (cases "fst (charger_projet ev nom s)")
  case (Inl e)
  then have "snd (charger_projet ev nom s) = s"
    by (auto simp: charger_projet_def Let_def split: if_splits option.splits sum.splits bool.splits json.splits)
  then show ?thesis by simp
next
  case (Inr cfg)
  then obtain d c where d: "list_all (dict_has d) champs_requis"
     and cfg: "cfg = compat_produits (dict_set d ''chemin_plan'' (JStr c))"
     and s: "projet_actuel (snd (charger_projet ev nom s)) = Some cfg"
    by (auto simp: charger_projet_def Let_def all_in_obj split: if_splits option.splits sum.splits bool.splits json.splits)
  have "projet_ok cfg" unfolding cfg
    by (rule compat_produits_ok) (use d in \<open>auto simp: champs_requis_def chemin_est_str_def dict_get_set\<close>)
  with s show ?thesis by simp
qed

lemma creer_projet_actuel:
  "projet_actuel (snd (creer_projet ev nom magasin auteur plan s)) = projet_actuel s
   \<or> (\<exists>cfg. projet_actuel (snd (creer_projet ev nom magasin auteur plan s)) = Some cfg
            \<and> projet_ok cfg)"
  by (auto simp: creer_projet_def Let_def projet_ok_def champs_requis_def dict_has_def
        dict_keys_def chemin_est_str_def dict_get_def
      split: prod.splits bool.splits option.splits)

lemma supprimer_projet_actuel_cases:
  "projet_actuel (snd (supprimer_projet ev nom s)) = projet_actuel s
   \<or> projet_actuel (snd (supprimer_projet ev nom s)) = None"
  by (auto simp: supprimer_projet_def Let_def split: option.splits prod.splits bool.splits)

lemma sauvegarder_projet_actuel [simp]:
  "projet_actuel (snd (sauvegarder ev s)) = projet_actuel s"
  by (auto simp: sauvegarder_def Let_def split: option.splits json.splits)

lemma projet_ok_set_produits: "projet_ok cfg \<Longrightarrow> projet_ok (dict_set cfg ''produits'' v)"
  by (auto simp: projet_ok_def champs_requis_def chemin_est_str_def dict_get_set)

lemma definir_projet_actuel:
  "projet_actuel (snd (definir_produits_case ev la_case produits s)) = projet_actuel s
   \<or> (\<exists>cfg d. projet_actuel s = Some cfg
         \<and> projet_actuel (snd (definir_produits_case ev la_case produits s))
             = Some (dict_set cfg ''produits'' (JObj d)))"
  by (auto simp: definir_produits_case_def set_produits_def projet_actif_def
      split: option.splits json.splits sum.splits bool.splits if_splits)

lemma reachable_projet_ok:
  "reachable ev s \<Longrightarrow> projet_actuel s = Some cfg \<Longrightarrow> projet_ok cfg"
proof (induction arbitrary: cfg rule: reachable.induct)
  case (start f)
  then show ?case by simp
next
  case (disk_change s f)
  then show ?case by simp
next
  case (creer s nom magasin auteur plan)
  with creer_projet_actuel [of ev nom magasin auteur plan s] show ?case by auto
next
  case (charger s nom)
  with charger_projet_actuel [of ev nom s] show ?case by auto
next
  case (supprimer s nom)
  with supprimer_projet_actuel_cases [of ev nom s] show ?case by auto
next
  case (sauver s)
  then show ?case by simp
next
  case (definir s la_case produits)
  with definir_projet_actuel [of ev la_case produits s] show ?case
    by (auto intro: projet_ok_set_produits)
qed

lemma py_in_no_KeyError: "py_in x v \<noteq> Inl KeyError"
  by (cases v) auto

lemma extend_all_no_KeyError: "extend_all acc vs \<noteq> Inl KeyError"
proof (induction vs arbitrary: acc)
  case Nil
  show ?case by simp
next
  case (Cons v vs)
  then show ?case by (cases v) auto
qed

lemma trouver_boucle_no_KeyError: "trouver_boucle x d \<noteq> Inl KeyError"
proof (induction d)
  case Nil
  show ?case by simp
next
  case (Cons kv d)
  obtain k v where "kv = (k, v)" by (cases kv)
  with Cons py_in_no_KeyError [of x v] show ?case
    by (auto split: sum.splits bool.splits)
qed

lemma sauvegarder_no_KeyError:
  "projet_actuel s = Some cfg \<Longrightarrow> dict_has cfg ''nom'' \<Longrightarrow> fst (sauvegarder ev s) \<noteq> Inl KeyError"
  by (auto simp: sauvegarder_def projet_actif_def dict_has_get Let_def
      split: option.splits json.splits)

lemma definir_no_KeyError:
  assumes "projet_actuel s = Some cfg" "dict_has cfg ''produits''" "dict_has cfg ''nom''"
  shows "fst (definir_produits_case ev la_case produits s) \<noteq> Inl KeyError"
proof -
  from assms(2) obtain pl where pl: "dict_get cfg ''produits'' = Some pl"
    by (auto simp: dict_has_get)
  have sv: "fst (sauvegarder ev s) \<noteq> Inl KeyError"
    using assms by (rule_tac sauvegarder_no_KeyError) auto
  have sv': "fst (sauvegarder ev (set_produits cfg d s)) \<noteq> Inl KeyError" for d
    by (rule sauvegarder_no_KeyError [where cfg = "dict_set cfg ''produits'' (JObj d)"])
       (use assms in \<open>auto simp: set_produits_def\<close>)
  show ?thesis
    using assms(1) pl sv sv' py_in_no_KeyError [of la_case pl]
    by (auto simp: definir_produits_case_def projet_actif_def
        split: option.splits json.splits sum.splits bool.splits)
qed

lemma compat_produits_get_produits:
  "dict_get (compat_produits d) ''produits'' =
     (if dict_has d ''produits_par_case'' then dict_get d ''produits_par_case''
      else (case dict_get d ''produits'' of
              None \<Rightarrow> Some (JObj [])
            | Some (JList vs) \<Rightarrow> Some (JObj [])
            | Some v \<Rightarrow> Some v))"
  by (auto simp: compat_produits_def dict_has_get dict_get_set dict_get_del
      split: option.splits json.splits)

lemma compat_produits_get_produits_set:
  "k \<noteq> ''produits'' \<Longrightarrow> k \<noteq> ''produits_par_case'' \<Longrightarrow>
   dict_get (compat_produits (dict_set d k v)) ''produits'' = dict_get (compat_produits d) ''produits''"
  by (simp add: compat_produits_get_produits dict_has_get dict_get_set)

lemma definir_cases:
  "projet_actuel (snd (definir_produits_case ev la_case produits s)) = projet_actuel s
   \<or> (\<exists>cfg d. projet_actuel s = Some cfg \<and> dict_get cfg ''produits'' = Some (JObj d)
         \<and> (produits \<noteq> []
              \<and> projet_actuel (snd (definir_produits_case ev la_case produits s))
                  = Some (dict_set cfg ''produits''
                            (JObj (dict_set d la_case (JList (map JStr produits)))))
            \<or> projet_actuel (snd (definir_produits_case ev la_case produits s))
                  = Some (dict_set cfg ''produits'' (JObj (dict_del d la_case)))))"
  by (auto simp: definir_produits_case_def set_produits_def projet_actif_def
      split: option.splits json.splits sum.splits bool.splits if_splits)

lemma definir_sans_case_vide:
  assumes "sans_case_vide s"
  shows "sans_case_vide (snd (definir_produits_case ev la_case produits s))"
proof -
  let ?s' = "snd (definir_produits_case ev la_case produits s)"
  from definir_cases [of ev la_case produits s]
  consider (same) "projet_actuel ?s' = projet_actuel s"
    | (put) cfg d where "projet_actuel s = Some cfg" "dict_get cfg ''produits'' = Some (JObj d)"
        "produits \<noteq> []"
        "projet_actuel ?s' = Some (dict_set cfg ''produits''
                                    (JObj (dict_set d la_case (JList (map JStr produits)))))"
    | (del) cfg d where "projet_actuel s = Some cfg" "dict_get cfg ''produits'' = Some (JObj d)"
        "projet_actuel ?s' = Some (dict_set cfg ''produits'' (JObj (dict_del d la_case)))"
    by blast
  then show ?thesis
  proof cases
    case same
    with assms show ?thesis by (simp add: sans_case_vide_def)
  next
    case put
    with assms have "list_all (\<lambda>kv. snd kv \<noteq> JList []) d"
      by (simp add: sans_case_vide_def produits_sans_vide_def)
    then have "list_all (\<lambda>kv. snd kv \<noteq> JList []) (dict_set d la_case (JList (map JStr produits)))"
      using put(3) by (intro list_all_dict_set) auto
    with put(4) show ?thesis
      by (simp add: sans_case_vide_def produits_sans_vide_def dict_get_set)
  next
    case del
    with assms have "list_all (\<lambda>kv. snd kv \<noteq> JList []) d"
      by (simp add: sans_case_vide_def produits_sans_vide_def)
    then have "list_all (\<lambda>kv. snd kv \<noteq> JList []) (dict_del d la_case)"
      by (rule list_all_dict_del)
    with del(3) show ?thesis
      by (simp add: sans_case_vide_def produits_sans_vide_def dict_get_set)
  qed
qed

lemma definir_vide_supprime:
  assumes "projet_actuel s = Some cfg" "dict_get cfg ''produits'' = Some (JObj d)"
  shows "\<exists>cfg'. projet_actuel (snd (definir_produits_case ev la_case [] s)) = Some cfg'
            \<and> dict_get cfg' ''produits'' = Some (JObj (dict_del d la_case))"
proof -
  from assms(2) have "cfg \<noteq> []" by (auto simp: dict_get_def)
  with assms(1) have act: "projet_actif s = Some cfg" by (simp add: projet_actif_def)
  show ?thesis
  proof (cases "dict_has d la_case")
    case True
    with act assms show ?thesis
      by (simp add: definir_produits_case_def set_produits_def dict_get_set)
  next
    case False
    with act assms show ?thesis
      by (simp add: definir_produits_case_def dict_del_absent)
  qed
qed

lemma creer_sans_case_vide:
  "fst (creer_projet ev nom magasin auteur plan s) = Inr () \<Longrightarrow>
   sans_case_vide (snd (creer_projet ev nom magasin auteur plan s))"
  by (auto simp: creer_projet_def Let_def sans_case_vide_def produits_sans_vide_def dict_get_def
      split: prod.splits bool.splits option.splits if_splits)

lemma charger_produits:
  assumes "fst (charger_projet ev nom s) = Inr cfg"
  shows "\<exists>doc. json_load (disk s) (cwd ev)
                 (path_join (path_join (DOSSIER_PROJETS ev) nom) ''config.json'') = Some (JObj doc)
           \<and> projet_actuel (snd (charger_projet ev nom s)) = Some cfg
           \<and> dict_get cfg ''produits'' = dict_get (compat_produits doc) ''produits''"
  using assms
  by (auto simp: charger_projet_def Let_def compat_produits_get_produits_set
      split: if_splits option.splits sum.splits bool.splits json.splits)

lemma sauvegarder_Inr:
  assumes "fst (sauvegarder ev s) = Inr ()" "projet_actuel s = Some cfg"
  shows "\<exists>n f'. dict_get cfg ''nom'' = Some (JStr n)
          \<and> json_dump (disk s) (cwd ev)
               (path_join (path_join (DOSSIER_PROJETS ev) n) ''config.json'') (JObj cfg) = Some f'
          \<and> snd (sauvegarder ev s) = s\<lparr>disk := f'\<rparr>"
  using assms
  by (auto simp: sauvegarder_def projet_actif_def Let_def
      split: option.splits json.splits if_splits)

lemma charger_apres_sauvegarde:
  assumes ok: "projet_ok cfg"
    and nom: "dict_get cfg ''nom'' = Some (JStr n)" "path_join (DOSSIER_PROJETS ev) n \<noteq> []"
    and act: "projet_actuel s = Some cfg"
    and sv: "fst (sauvegarder ev s) = Inr ()"
  shows "json_load (disk (snd (sauvegarder ev s))) (cwd ev)
           (path_join (path_join (DOSSIER_PROJETS ev) n) ''config.json'') = Some (JObj cfg)
    \<and> (\<exists>cfg'. fst (charger_projet ev n (snd (sauvegarder ev s))) = Inr cfg'
           \<and> dict_get cfg' ''produits'' = dict_get (compat_produits cfg) ''produits'')"
proof -
  let ?a = "path_join (DOSSIER_PROJETS ev) n"
  let ?s' = "snd (sauvegarder ev s)"
  from sauvegarder_Inr [OF sv act] nom(1) obtain f' where
    f': "json_dump (disk s) (cwd ev) (path_join ?a ''config.json'') (JObj cfg) = Some f'"
      "?s' = s\<lparr>disk := f'\<rparr>"
    by auto
  from json_dump_then_load [OF f'(1) nom(2)]
  have d: "isdir (disk ?s') (cwd ev) ?a"
    and l: "json_load (disk ?s') (cwd ev) (path_join ?a ''config.json'') = Some (JObj cfg)"
    by (simp_all add: f'(2))
  from ok have req: "list_all (dict_has cfg) champs_requis"
    and ch: "chemin_est_str cfg" by (simp_all add: projet_ok_def)
  from ch obtain c where c: "dict_get cfg ''chemin_plan'' = Some (JStr c)"
    by (auto simp: chemin_est_str_def split: option.splits json.splits)
  have "fst (charger_projet ev n ?s')
          = Inr (compat_produits (dict_set cfg ''chemin_plan'' (JStr (replace_backslash (normpath c)))))"
    by (simp add: charger_projet_def Let_def d l all_in_obj req c)
  with l show ?thesis by (simp add: compat_produits_get_produits_set)
qed

lemma compat_produits_ok_produits:
  "projet_ok cfg \<Longrightarrow> dict_get cfg ''produits'' = Some (JObj d) \<Longrightarrow>
   dict_get (compat_produits cfg) ''produits'' = Some (JObj d)"
  by (simp add: compat_produits_get_produits projet_ok_def)

lemma creer_Inr:
  assumes "creer_projet ev nom0 magasin auteur plan s = (Inr (), s')"
  shows "strip nom0 \<noteq> []
    \<and> (\<exists>f2. json_dump f2 (cwd ev)
               (path_join (path_join (DOSSIER_PROJETS ev) (strip nom0)) ''config.json'')
               (JObj (projet_initial (strip nom0) magasin auteur
                  (replace_backslash
                     (normpath (path_join (path_join (path_join ''App1'' ''projets'') (strip nom0))
                                   (''plan'' @ splitext_ext plan))))))
             = Some (disk s'))
    \<and> projet_actuel s' =
         Some (projet_initial (strip nom0) magasin auteur
                 (replace_backslash
                    (normpath (path_join (path_join (path_join ''App1'' ''projets'') (strip nom0))
                                  (''plan'' @ splitext_ext plan)))))"
  using assms
  by (auto simp: creer_projet_def Let_def projet_initial_def
      split: if_splits prod.splits bool.splits option.splits)

lemma charger_projet_initial:
  assumes d: "isdir (disk s) (cwd ev) (path_join (DOSSIER_PROJETS ev) nom)"
    and l: "json_load (disk s) (cwd ev)
              (path_join (path_join (DOSSIER_PROJETS ev) nom) ''config.json'')
            = Some (JObj (projet_initial n m a c))"
    and c: "replace_backslash (normpath c) = c"
  shows "charger_projet ev nom s
         = (Inr (projet_initial n m a c), s\<lparr>projet_actuel := Some (projet_initial n m a c)\<rparr>)"
proof -
  have 1: "all_in champs_requis (JObj (projet_initial n m a c)) = Inr True"
    by (simp add: all_in_obj champs_requis_def projet_initial_def dict_has_def dict_keys_def)
  have 2: "dict_get (projet_initial n m a c) ''chemin_plan'' = Some (JStr c)"
    by (simp add: projet_initial_def dict_get_def)
  have 3: "dict_set (projet_initial n m a c) ''chemin_plan'' (JStr c) = projet_initial n m a c"
    by (simp add: projet_initial_def)
  have 4: "compat_produits (projet_initial n m a c) = projet_initial n m a c"
    by (simp add: compat_produits_def projet_initial_def dict_has_def dict_keys_def dict_get_def)
  show ?thesis
    by (simp add: charger_projet_def Let_def d l 1 2 3 4 c)
qed

lemma creer_etapes:
  assumes "creer_projet ev nom0 magasin auteur plan s = (Inr (), s')"
  shows "strip nom0 \<noteq> []
    \<and> \<not> path_exists (disk s) (cwd ev) (path_join (DOSSIER_PROJETS ev) (strip nom0))
    \<and> isfile (disk s) (cwd ev) plan
    \<and> (\<exists>f1 f2 cfg.
          makedirs (disk s) (cwd ev) (path_join (DOSSIER_PROJETS ev) (strip nom0)) = (None, f1)
          \<and> copy2 f1 (cwd ev) plan
               (normpath (path_join (path_join (path_join ''App1'' ''projets'') (strip nom0))
                            (''plan'' @ splitext_ext plan))) = Some f2
          \<and> json_dump f2 (cwd ev)
               (path_join (path_join (DOSSIER_PROJETS ev) (strip nom0)) ''config.json'') cfg
              = Some (disk s'))"
  using assms
  by (auto simp: creer_projet_def Let_def
      split: if_splits prod.splits bool.splits option.splits)

lemma charger_document:
  assumes "fst (charger_projet ev nom s) = Inr cfg"
  shows "\<exists>doc c. json_load (disk s) (cwd ev)
                 (path_join (path_join (DOSSIER_PROJETS ev) nom) ''config.json'') = Some (JObj doc)
           \<and> cfg = compat_produits (dict_set doc ''chemin_plan'' (JStr c))"
  using assms
  by (auto simp: charger_projet_def Let_def
      split: if_splits option.splits sum.splits bool.splits json.splits)

lemma extend_all_concat:
  "list_all is_seq vs \<Longrightarrow>
   extend_all acc vs = Inr (acc @ concat (map (\<lambda>v. case v of JList xs \<Rightarrow> xs | _ \<Rightarrow> []) vs))"
proof (induction vs arbitrary: acc)
  case Nil
  then show ?case by simp
next
  case (Cons v vs)
  then obtain xs where "v = JList xs" by (cases v) auto
  with Cons show ?case by simp
qed

lemma compat_produits_placements:
  "dict_get (compat_produits d) ''produits'' = Some (placements_document d)"
  by (auto simp: compat_produits_get_produits placements_document_def dict_has_get
      split: option.splits json.splits)

lemma placements_document_set:
  "k \<noteq> ''produits'' \<Longrightarrow> k \<noteq> ''produits_par_case'' \<Longrightarrow>
   placements_document (dict_set d k v) = placements_document d"
  by (auto simp: placements_document_def dict_get_set split: option.splits)

lemma charger_placements:
  assumes "fst (charger_projet ev nom s) = Inr cfg"
  shows "\<exists>doc. json_load (disk s) (cwd ev)
                 (path_join (path_join (DOSSIER_PROJETS ev) nom) ''config.json'') = Some (JObj doc)
           \<and> projet_actuel (snd (charger_projet ev nom s)) = Some cfg
           \<and> dict_get cfg ''produits'' = Some (placements_document doc)
           \<and> sans_case_vide (snd (charger_projet ev nom s))
               = produits_sans_vide (placements_document doc)"
proof -
  from charger_document [OF assms] obtain doc c where
    l: "json_load (disk s) (cwd ev)
          (path_join (path_join (DOSSIER_PROJETS ev) nom) ''config.json'') = Some (JObj doc)"
    and cfg: "cfg = compat_produits (dict_set doc ''chemin_plan'' (JStr c))"
    by blast
  from charger_produits [OF assms] have act: "projet_actuel (snd (charger_projet ev nom s)) = Some cfg"
    by blast
  have g: "dict_get cfg ''produits'' = Some (placements_document doc)"
    unfolding cfg by (simp add: compat_produits_placements placements_document_set)
  from act g have "sans_case_vide (snd (charger_projet ev nom s))
                   = produits_sans_vide (placements_document doc)"
    by (simp add: sans_case_vide_def)
  with l act g show ?thesis by blast
qed

lemma creer_produits_vides:
  "fst (creer_projet ev nom magasin auteur plan s) = Inr () \<Longrightarrow>
   \<exists>cfg. projet_actuel (snd (creer_projet ev nom magasin auteur plan s)) = Some cfg
      \<and> dict_get cfg ''produits'' = Some (JObj [])"
  by (auto simp: creer_projet_def Let_def dict_get_def
      split: prod.splits bool.splits option.splits if_splits)

lemma list_all_seq_set:
  "list_all is_seq (map snd d) \<Longrightarrow> is_seq v \<Longrightarrow> list_all is_seq (map snd (dict_set d k v))"
  by (induction d) auto

lemma list_all_seq_del:
  "list_all is_seq (map snd d) \<Longrightarrow> list_all is_seq (map snd (dict_del d k))"
  by (induction d) (auto simp: dict_del_def)

lemma definir_placements_sequences:
  assumes "placements_sequences s"
  shows "placements_sequences (snd (definir_produits_case ev la_case produits s))"
proof -
  let ?s' = "snd (definir_produits_case ev la_case produits s)"
  from definir_cases [of ev la_case produits s]
  consider (same) "projet_actuel ?s' = projet_actuel s"
    | (put) cfg d where "projet_actuel s = Some cfg" "dict_get cfg ''produits'' = Some (JObj d)"
        "projet_actuel ?s' = Some (dict_set cfg ''produits''
                                    (JObj (dict_set d la_case (JList (map JStr produits)))))"
    | (del) cfg d where "projet_actuel s = Some cfg" "dict_get cfg ''produits'' = Some (JObj d)"
        "projet_actuel ?s' = Some (dict_set cfg ''produits'' (JObj (dict_del d la_case)))"
    by blast
  then show ?thesis
  proof cases
    case same
    with assms show ?thesis by (simp add: placements_sequences_def)
  next
    case put
    with assms have "list_all is_seq (map snd d)" by (simp add: placements_sequences_def)
    then have "list_all is_seq (map snd (dict_set d la_case (JList (map JStr produits))))"
      by (rule list_all_seq_set) simp
    with put(3) show ?thesis by (simp add: placements_sequences_def dict_get_set)
  next
    case del
    with assms have "list_all is_seq (map snd d)" by (simp add: placements_sequences_def)
    then have "list_all is_seq (map snd (dict_del d la_case))" by (rule list_all_seq_del)
    with del(3) show ?thesis by (simp add: placements_sequences_def dict_get_set)
  qed
qed

section \<open>The operations on the concrete stores\<close>

lemma strip_m: "strip ''m'' = ''m''"
  by (simp add: strip_def isspace_def)

lemma ex_resolve_m: "resolve ex_disk [] ''App1/projets/m'' = Some [''App1'', ''projets'', ''m'']"
  by (simp add: resolve_def start_dir_def step_def ex_disk_def)

lemma ex_not_exists_m: "\<not> path_exists ex_disk [] ''App1/projets/m''"
  by (simp add: path_exists_def ex_resolve_m) (simp add: ex_disk_def)

lemma ex_not_isfile_absent: "\<not> isfile ex_disk [] ''absent.png''"
  by (simp add: isfile_def resolve_def start_dir_def step_def ex_disk_def)

lemma ex_m_resolve: "resolve ex_disk_m [] ''App1/projets/m'' = Some [''App1'', ''projets'', ''m'']"
  by (simp add: resolve_def start_dir_def step_def ex_disk_m_def ex_disk_def)

lemma ex_m_isdir: "isdir ex_disk_m [] ''App1/projets/m''"
  by (simp add: isdir_def ex_m_resolve) (simp add: ex_disk_m_def)

lemma ex_m_supprimer: "fst (supprimer_projet ex_env ''m'' ex_world_m) = Inr ()"
  by (simp add: supprimer_projet_def ex_env_def ex_world_m_def path_join_def ex_m_isdir
      rmtree_def ex_m_resolve projet_actif_def Let_def)
    (simp add: ex_disk_m_def ex_config_def dict_get_def)

lemma ex_supprimer_sans_projet:
  "fst (supprimer_projet ex_env ''m'' (ex_world_m\<lparr>projet_actuel := None\<rparr>)) = Inr ()"
  by (simp add: supprimer_projet_def ex_env_def ex_world_m_def path_join_def ex_m_isdir
      rmtree_def ex_m_resolve projet_actif_def Let_def)
    (simp add: ex_disk_m_def)

lemma ex_makedirs: "makedirs ex_disk [] ''App1/projets/m'' = (None, ex_disk([''App1'', ''projets'', ''m''] \<mapsto> Dir))"
  by (simp add: makedirs_def start_dir_def step_def ex_disk_def Let_def)

lemma ex_splitext: "splitext_ext ''plan.png'' = ''.png''"
  by (simp add: splitext_ext_def basename_def)

lemma ex_normpath: "normpath ''App1/projets/m/plan.png'' = ''App1/projets/m/plan.png''"
  by (simp add: normpath_def initial_slashes_def)

lemma ex_creer:
  "fst (creer_projet ex_env ''m'' ''magasin'' ''auteur'' ''plan.png'' ex_world) = Inr ()
  \<and> projet_actuel (snd (creer_projet ex_env ''m'' ''magasin'' ''auteur'' ''plan.png'' ex_world)) = Some ex_config0"
  apply (simp add: creer_projet_def Let_def strip_m ex_env_def ex_world_def path_join_def ex_not_exists_m ex_makedirs ex_splitext ex_normpath)
  apply (simp add: Let_def path_join_def ex_normpath isfile_def copy2_def read_file_def resolve_def start_dir_def step_def isdir_def write_file_def json_dump_def ex_disk_def replace_backslash_def ex_config0_def)
  done

lemma ex_doc_isdir: "isdir (disk (ex_world_doc doc)) [] ''App1/projets/m''"
  by (simp add: ex_world_doc_def isdir_def resolve_def start_dir_def step_def ex_disk_m_def ex_disk_def)

lemma ex_doc_load: "json_load (disk (ex_world_doc doc)) [] ''App1/projets/m/config.json'' = Some (JObj doc)"
  by (simp add: ex_world_doc_def json_load_def read_file_def resolve_def start_dir_def step_def ex_disk_m_def ex_disk_def)

lemma ex_charger_doc:
  "charger_projet ex_env ''m'' (ex_world_doc doc) =
    (case all_in champs_requis (JObj doc) of
                Inl e \<Rightarrow> (Inl e, ex_world_doc doc)
              | Inr False \<Rightarrow> (Inl (ValueError ConfigInvalide), ex_world_doc doc)
              | Inr True \<Rightarrow>
                       (case dict_get doc ''chemin_plan'' of
                          None \<Rightarrow> (Inl KeyError, ex_world_doc doc)
                        | Some (JStr chemin) \<Rightarrow>
                            let cfg1 = dict_set doc ''chemin_plan''
                                         (JStr (replace_backslash (normpath chemin)));
                                cfg2 = compat_produits cfg1
                            in (Inr cfg2, (ex_world_doc doc)\<lparr>projet_actuel := Some cfg2\<rparr>)
                        | Some v \<Rightarrow> (Inl TypeError, ex_world_doc doc)))"
  by (simp add: charger_projet_def ex_env_def path_join_def ex_doc_isdir ex_doc_load
      split: sum.split bool.split)

lemma ex_doc_actuel: "projet_actuel (ex_world_doc doc) = None"
  by (simp add: ex_world_doc_def)

lemma ex_disk_m_config:
  "ex_disk_m([''App1'', ''projets'', ''m'', ''config.json''] \<mapsto> File (JsonText (JObj ex_config))) = ex_disk_m"
  by (simp add: ex_disk_m_def)

lemma ex_charger_m:
  "charger_projet ex_env ''m'' (ex_world_doc ex_config) = (Inr ex_config, ex_world_m)"
  by (simp add: Let_def ex_charger_doc ex_config_def champs_requis_def dict_has_def
        dict_keys_def dict_get_def ex_normpath replace_backslash_def compat_produits_def)
     (simp add: ex_world_doc_def ex_world_m_def ex_disk_m_config [unfolded ex_config_def] ex_config_def)

lemma ex_world_m_reachable: "reachable ex_env ex_world_m"
proof -
  have "reachable ex_env (ex_world_doc ex_config)"
    unfolding ex_world_doc_def by (rule reachable.start)
  then have "reachable ex_env (snd (charger_projet ex_env ''m'' (ex_world_doc ex_config)))"
    by (rule reachable.charger)
  then show ?thesis by (simp add: ex_charger_m)
qed

lemma ex_m_definir:
  "fst (definir_produits_case ex_env ''C'' [''u'', ''v''] ex_world_m) = Inr ()"
  by (simp add: definir_produits_case_def projet_actif_def ex_world_m_def ex_config_def
      dict_get_def set_produits_def sauvegarder_def ex_env_def path_join_def Let_def
      json_dump_def write_file_def resolve_def start_dir_def step_def ex_disk_m_def ex_disk_def)

lemma ex_makedirs_m:
  "makedirs ex_disk [] ''App1/projets/m'' = (None, ex_disk([''App1'', ''projets'', ''m''] \<mapsto> Dir))"
  by (simp add: makedirs_def start_dir_def step_def ex_disk_def Let_def)

lemma ex_creer_strip:
  assumes "nom0 \<noteq> []" "strip nom0 = ''m''"
  shows "creer_projet ex_env nom0 ''magasin'' ''auteur'' ''plan.png'' ex_world
         = (Inr (), \<lparr>disk = ex_disk_cree, projet_actuel = Some ex_config0\<rparr>)"
  using assms
  apply (simp add: creer_projet_def Let_def ex_env_def ex_world_def path_join_def
      ex_not_exists_m ex_makedirs_m ex_splitext ex_normpath)
  apply (simp add: Let_def path_join_def ex_normpath isfile_def copy2_def read_file_def
      resolve_def start_dir_def step_def isdir_def write_file_def json_dump_def ex_disk_def
      replace_backslash_def ex_config0_def ex_disk_cree_def)
  done

lemma strip_esp_m: "strip '' m'' = ''m''"
  by (simp add: strip_def isspace_def)

lemma ex_cree_not_isdir: "\<not> isdir ex_disk_cree [] ''App1/projets/ m''"
  by (simp add: isdir_def resolve_def start_dir_def step_def ex_disk_cree_def ex_disk_def)

lemma ex_charger_esp:
  "charger_projet ex_env '' m'' \<lparr>disk = ex_disk_cree, projet_actuel = Some ex_config0\<rparr>
   = (Inl (ValueError ProjetIntrouvable), \<lparr>disk = ex_disk_cree, projet_actuel = Some ex_config0\<rparr>)"
  by (simp add: charger_projet_def ex_env_def path_join_def ex_cree_not_isdir)

lemma strip_nb: "strip nom_backslash = nom_backslash"
  by (simp add: strip_def isspace_def nom_backslash_def)

lemma join_nb: "path_join ''App1/projets'' nom_backslash = dossier_nb"
  by (simp add: path_join_def nom_backslash_def dossier_nb_def)

lemma join_nb': "path_join (path_join ''App1'' ''projets'') nom_backslash = dossier_nb"
  by (simp add: path_join_def nom_backslash_def dossier_nb_def)

lemma join_plan_nb: "path_join dossier_nb ''plan.png'' = plan_nb"
  by (simp add: path_join_def dossier_nb_def plan_nb_def)

lemma join_config_nb: "path_join dossier_nb ''config.json'' = dossier_nb @ ''/config.json''"
  by (simp add: path_join_def dossier_nb_def)

lemma resolve_nb: "resolve ex_disk [] dossier_nb = Some [''App1'', ''projets'', nom_backslash]"
  by (simp add: resolve_def start_dir_def step_def ex_disk_def dossier_nb_def nom_backslash_def)

lemma not_exists_nb: "\<not> path_exists ex_disk [] dossier_nb"
  by (simp add: path_exists_def resolve_nb) (simp add: ex_disk_def nom_backslash_def)

lemma makedirs_nb:
  "makedirs ex_disk [] dossier_nb = (None, ex_disk([''App1'', ''projets'', nom_backslash] \<mapsto> Dir))"
  by (simp add: makedirs_def start_dir_def step_def ex_disk_def Let_def dossier_nb_def
      nom_backslash_def)

lemma normpath_nb: "normpath plan_nb = plan_nb"
  by (simp add: normpath_def initial_slashes_def plan_nb_def)

lemma replace_nb: "replace_backslash plan_nb = ''App1/projets/a//plan.png''"
  by (simp add: replace_backslash_def plan_nb_def)

lemma normpath_nb2: "normpath ''App1/projets/a//plan.png'' = ''App1/projets/a/plan.png''"
  by (simp add: normpath_def initial_slashes_def)

lemma isfile_plan: "isfile ex_disk [] ''plan.png''"
  by (simp add: isfile_def resolve_def start_dir_def step_def ex_disk_def)

lemma copy2_nb:
  "copy2 (ex_disk([''App1'', ''projets'', nom_backslash] \<mapsto> Dir)) [] ''plan.png'' plan_nb
   = Some (ex_disk([''App1'', ''projets'', nom_backslash] \<mapsto> Dir,
                    [''App1'', ''projets'', nom_backslash, ''plan.png''] \<mapsto> File (OtherBytes 0)))"
  by (simp add: copy2_def read_file_def isdir_def write_file_def resolve_def start_dir_def
      step_def Let_def plan_nb_def nom_backslash_def ex_disk_def)

lemma dump_nb:
  "json_dump (ex_disk([''App1'', ''projets'', nom_backslash] \<mapsto> Dir,
                    [''App1'', ''projets'', nom_backslash, ''plan.png''] \<mapsto> File (OtherBytes 0)))
      [] (dossier_nb @ ''/config.json'') v \<noteq> None"
  by (simp add: json_dump_def write_file_def resolve_def start_dir_def
      step_def dossier_nb_def nom_backslash_def ex_disk_def)

lemma nb_ne: "nom_backslash \<noteq> []"
  by (simp add: nom_backslash_def)

lemma ex_creer_backslash:
  "fst (creer_projet ex_env nom_backslash ''magasin'' ''auteur'' ''plan.png'' ex_world) = Inr ()"
  using dump_nb nb_ne
  by (auto simp: creer_projet_def Let_def strip_nb ex_env_def ex_world_def join_nb join_nb'
      not_exists_nb isfile_plan makedirs_nb ex_splitext join_plan_nb normpath_nb copy2_nb
      join_config_nb split: option.splits)

lemma ailleurs_not_exists: "\<not> path_exists ex_disk_ailleurs [] ''/data/m''"
  by (simp add: path_exists_def resolve_def start_dir_def step_def ex_disk_ailleurs_def ex_disk_def)

lemma ailleurs_isfile: "isfile ex_disk_ailleurs [] ''plan.png''"
  by (simp add: isfile_def resolve_def start_dir_def step_def ex_disk_ailleurs_def ex_disk_def)

lemma ailleurs_makedirs:
  "makedirs ex_disk_ailleurs [] ''/data/m'' = (None, ex_disk_ailleurs([''data'', ''m''] \<mapsto> Dir))"
  by (simp add: makedirs_def start_dir_def step_def Let_def ex_disk_ailleurs_def ex_disk_def)

lemma ailleurs_copy2:
  "copy2 (ex_disk_ailleurs([''data'', ''m''] \<mapsto> Dir)) [] ''plan.png'' ''App1/projets/m/plan.png''
   = Some (ex_disk_ailleurs([''data'', ''m''] \<mapsto> Dir,
             [''App1'', ''projets'', ''m'', ''plan.png''] \<mapsto> File (OtherBytes 0)))"
  by (simp add: copy2_def read_file_def isdir_def write_file_def resolve_def start_dir_def
      step_def Let_def ex_disk_ailleurs_def ex_disk_def)

lemma ailleurs_dump:
  "json_dump (ex_disk_ailleurs([''data'', ''m''] \<mapsto> Dir,
             [''App1'', ''projets'', ''m'', ''plan.png''] \<mapsto> File (OtherBytes 0)))
     [] ''/data/m/config.json'' (JObj ex_config0) = Some ex_disk_ailleurs_cree"
  by (simp add: json_dump_def write_file_def resolve_def start_dir_def step_def
      ex_disk_ailleurs_cree_def ex_disk_ailleurs_def ex_disk_def)

lemma ailleurs_creer:
  "creer_projet ex_env_ailleurs ''m'' ''magasin'' ''auteur'' ''plan.png'' ex_world_ailleurs
   = (Inr (), \<lparr>disk = ex_disk_ailleurs_cree, projet_actuel = Some ex_config0\<rparr>)"
proof -
  have j1: "path_join ''/data'' ''m'' = ''/data/m''" by (simp add: path_join_def)
  have j2: "path_join ''/data/m'' ''config.json'' = ''/data/m/config.json''"
    by (simp add: path_join_def)
  have j3: "path_join (path_join (path_join ''App1'' ''projets'') ''m'') (''plan'' @ ''.png'')
            = ''App1/projets/m/plan.png''"
    by (simp add: path_join_def)
  have c: "[(''nom'', JStr ''m''), (''magasin'', JStr ''magasin''), (''auteur'', JStr ''auteur''),
            (''chemin_plan'', JStr (replace_backslash ''App1/projets/m/plan.png'')),
            (''produits'', JObj [])] = ex_config0"
    by (simp add: ex_config0_def replace_backslash_def)
  show ?thesis
    unfolding creer_projet_def Let_def
    by (simp only: strip_m ex_env_ailleurs_def ex_world_ailleurs_def env.simps world.simps j1 j2
          ex_splitext j3 ex_normpath ailleurs_not_exists ailleurs_isfile ailleurs_makedirs
          ailleurs_copy2 c ailleurs_dump)
       (simp add: ailleurs_copy2 c ailleurs_dump)
qed

lemma ex_tree: "tree ex_disk"
  unfolding tree_def ex_disk_def by (auto split: if_splits)

lemma ex_resolve_root: "resolve ex_disk [] ''App1/projets'' = Some [''App1'', ''projets'']"
  by (simp add: resolve_def start_dir_def step_def ex_disk_def)

lemma simple_m: "simple_name ''m''"
  by (simp add: simple_name_def)

lemma ex_supprimer_autre:
  "fst (supprimer_projet ex_env ''m'' (ex_world_m\<lparr>projet_actuel := Some ex_config_n\<rparr>)) = Inr ()"
  by (simp add: supprimer_projet_def ex_env_def ex_world_m_def path_join_def ex_m_isdir
      rmtree_def ex_m_resolve projet_actif_def Let_def)
    (simp add: ex_disk_m_def ex_config_n_def dict_get_def)

lemma ex_doc_load_env:
  "json_load (disk (ex_world_doc doc)) (cwd ex_env)
     (path_join (path_join (DOSSIER_PROJETS ex_env) ''m'') ''config.json'') = Some (JObj doc)"
  using ex_doc_load [of doc] by (simp add: ex_env_def path_join_def)

lemma ex_charger_liste:
  "fst (charger_projet ex_env ''m'' (ex_world_doc ex_doc_liste))
   = Inr (projet_initial ''m'' ''magasin'' ''auteur'' ''App1/projets/m/plan.png'')"
  by (simp add: Let_def ex_charger_doc ex_doc_liste_def champs_requis_def dict_has_def
      dict_keys_def dict_get_def ex_normpath replace_backslash_def compat_produits_def
      projet_initial_def)

lemma ex_charger_ancien:
  "fst (charger_projet ex_env ''m'' (ex_world_doc ex_doc_ancien))
   = Inr [(''nom'', JStr ''m''), (''magasin'', JStr ''magasin''), (''auteur'', JStr ''auteur''),
          (''chemin_plan'', JStr ''App1/projets/m/plan.png''),
          (''produits'', JObj [(''A'', JList [JStr ''x''])])]"
  by (simp add: Let_def ex_charger_doc ex_doc_ancien_def champs_requis_def dict_has_def
      dict_keys_def dict_get_def ex_normpath replace_backslash_def compat_produits_def
      dict_del_def)

lemma ex_m_exists: "path_exists ex_disk_m [] ''App1/projets/m''"
  by (simp add: path_exists_def ex_m_resolve) (simp add: ex_disk_m_def)

text \<open>
  A name of several components: \<^verbatim>\<open>os.makedirs\<close> on \<^verbatim>\<open>App1/projets/m/plan.png/../.\<close>
  makes the directories \<^verbatim>\<open>m\<close> and \<^verbatim>\<open>m/plan.png\<close>; the destination of the copy,
  normalised to \<^verbatim>\<open>App1/projets/m/plan.png\<close>, is then a directory, and \<^verbatim>\<open>shutil.copy2\<close>
  copies the image into it under its own name. The project directory holds no file
  \<^verbatim>\<open>plan.png\<close>.
\<close>

lemma carte_not_exists: "\<not> path_exists ex_disk_carte [] ''App1/projets/m/plan.png/../.''"
  by (simp add: path_exists_def resolve_def start_dir_def step_def ex_disk_carte_def ex_disk_def)

lemma carte_isfile: "isfile ex_disk_carte [] ''carte.png''"
  by (simp add: isfile_def resolve_def start_dir_def step_def ex_disk_carte_def ex_disk_def)

lemma carte_makedirs:
  "makedirs ex_disk_carte [] ''App1/projets/m/plan.png/../.''
   = (None, ex_disk_carte([''App1'', ''projets'', ''m''] \<mapsto> Dir,
                          [''App1'', ''projets'', ''m'', ''plan.png''] \<mapsto> Dir))"
  by (simp add: makedirs_def start_dir_def step_def Let_def ex_disk_carte_def ex_disk_def)

lemma carte_splitext: "splitext_ext ''carte.png'' = ''.png''"
  by (simp add: splitext_ext_def basename_def)

lemma carte_normpath:
  "normpath ''App1/projets/m/plan.png/.././plan.png'' = ''App1/projets/m/plan.png''"
  by (simp add: normpath_def initial_slashes_def)

lemma carte_copy2:
  "copy2 (ex_disk_carte([''App1'', ''projets'', ''m''] \<mapsto> Dir,
                        [''App1'', ''projets'', ''m'', ''plan.png''] \<mapsto> Dir))
     [] ''carte.png'' ''App1/projets/m/plan.png'' = Some ex_disk_carte_cree"
  by (simp add: copy2_def read_file_def isdir_def write_file_def resolve_def start_dir_def
      step_def Let_def path_join_def basename_def ex_disk_carte_cree_def ex_disk_carte_def
      ex_disk_def)

lemma carte_dump:
  "json_dump ex_disk_carte_cree [] ''App1/projets/m/plan.png/.././config.json'' v
   = Some (ex_disk_carte_cree([''App1'', ''projets'', ''m'', ''config.json''] \<mapsto> File (JsonText v)))"
  by (simp add: json_dump_def write_file_def resolve_def start_dir_def step_def
      ex_disk_carte_cree_def ex_disk_carte_def ex_disk_def)

lemma carte_strip: "strip ''m/plan.png/../.'' = ''m/plan.png/../.''"
  by (simp add: strip_def isspace_def)

lemma carte_creer:
  "fst (creer_projet ex_env ''m/plan.png/../.'' ''magasin'' ''auteur'' ''carte.png''
          \<lparr>disk = ex_disk_carte, projet_actuel = None\<rparr>) = Inr ()
   \<and> resolve (disk (snd (creer_projet ex_env ''m/plan.png/../.'' ''magasin'' ''auteur''
                           ''carte.png'' \<lparr>disk = ex_disk_carte, projet_actuel = None\<rparr>))) []
        (path_join (DOSSIER_PROJETS ex_env) ''m/plan.png/../.'')
       = Some [''App1'', ''projets'', ''m'']
   \<and> disk (snd (creer_projet ex_env ''m/plan.png/../.'' ''magasin'' ''auteur''
                   ''carte.png'' \<lparr>disk = ex_disk_carte, projet_actuel = None\<rparr>))
        [''App1'', ''projets'', ''m'', ''plan.png''] = Some Dir
   \<and> disk (snd (creer_projet ex_env ''m/plan.png/../.'' ''magasin'' ''auteur''
                   ''carte.png'' \<lparr>disk = ex_disk_carte, projet_actuel = None\<rparr>))
        [''App1'', ''projets'', ''m'', ''plan.png'', ''carte.png''] = Some (File (OtherBytes 1))"
proof -
  have j1: "path_join ''App1/projets'' ''m/plan.png/../.'' = ''App1/projets/m/plan.png/../.''"
    by (simp add: path_join_def)
  have j2: "path_join ''App1/projets/m/plan.png/../.'' ''config.json''
            = ''App1/projets/m/plan.png/.././config.json''"
    by (simp add: path_join_def)
  have j3: "path_join (path_join (path_join ''App1'' ''projets'') ''m/plan.png/../.'')
              (''plan'' @ ''.png'') = ''App1/projets/m/plan.png/.././plan.png''"
    by (simp add: path_join_def)
  have c: "creer_projet ex_env ''m/plan.png/../.'' ''magasin'' ''auteur'' ''carte.png''
             \<lparr>disk = ex_disk_carte, projet_actuel = None\<rparr>
           = (Inr (), \<lparr>disk = ex_disk_carte_cree
                 ([''App1'', ''projets'', ''m'', ''config.json''] \<mapsto>
                    File (JsonText (JObj (projet_initial ''m/plan.png/../.'' ''magasin'' ''auteur''
                        (replace_backslash ''App1/projets/m/plan.png''))))),
               projet_actuel = Some (projet_initial ''m/plan.png/../.'' ''magasin'' ''auteur''
                        (replace_backslash ''App1/projets/m/plan.png''))\<rparr>)"
    unfolding creer_projet_def Let_def projet_initial_def
    by (simp only: carte_strip ex_env_def env.simps world.simps j1 j2 carte_splitext j3
          carte_normpath carte_not_exists carte_isfile carte_makedirs carte_copy2 carte_dump)
       (simp add: carte_copy2 carte_dump)
  show ?thesis
    by (simp add: c)
       (simp add: ex_env_def j1 resolve_def start_dir_def step_def ex_disk_carte_cree_def
          ex_disk_carte_def ex_disk_def)
qed

lemma ex_charger_legacy:
  "charger_projet ex_env ''m'' (ex_world_doc ex_doc_legacy)
   = (Inr ex_config_liste, (ex_world_doc ex_doc_legacy)\<lparr>projet_actuel := Some ex_config_liste\<rparr>)"
  by (simp add: Let_def ex_charger_doc ex_doc_legacy_def champs_requis_def dict_has_def dict_keys_def
      dict_get_def ex_normpath replace_backslash_def compat_produits_def dict_del_def
      ex_config_liste_def)

lemma ex_charger_chaine:
  "charger_projet ex_env ''m'' (ex_world_doc ex_doc_chaine)
   = (Inr ex_doc_chaine, (ex_world_doc ex_doc_chaine)\<lparr>projet_actuel := Some ex_doc_chaine\<rparr>)"
  by (simp add: Let_def ex_charger_doc ex_doc_chaine_def champs_requis_def dict_has_def dict_keys_def
      dict_get_def ex_normpath replace_backslash_def compat_produits_def dict_del_def)

text \<open>
  \<^verbatim>\<open>shutil.rmtree\<close> on a path that ends in \<^verbatim>\<open>.\<close>: the directory is emptied, then
  \<^verbatim>\<open>rmdir\<close> fails, and \<^verbatim>\<open>supprimer_projet\<close> raises the \<^verbatim>\<open>ValueError\<close> of line 138
  before it reaches line 141. And \<^verbatim>\<open>os.makedirs\<close> on a name with a NUL character:
  \<^verbatim>\<open>creer_projet\<close> lets the \<^verbatim>\<open>ValueError\<close> of the library through.
\<close>

lemma ex_supprimer_point:
  "fst (supprimer_projet ex_env ''m/.'' ex_world_m) = Inl (ValueError ErreurSuppression)
   \<and> projet_actuel (snd (supprimer_projet ex_env ''m/.'' ex_world_m)) = Some ex_config
   \<and> disk (snd (supprimer_projet ex_env ''m/.'' ex_world_m)) [''App1'', ''projets'', ''m''] = Some Dir
   \<and> disk (snd (supprimer_projet ex_env ''m/.'' ex_world_m))
        [''App1'', ''projets'', ''m'', ''config.json''] = None"
proof -
  have r: "resolve ex_disk_m [] ''App1/projets/m/.'' = Some [''App1'', ''projets'', ''m'']"
    by (simp add: resolve_def start_dir_def step_def ex_disk_m_def ex_disk_def)
  have d: "isdir ex_disk_m [] ''App1/projets/m/.''"
    by (simp add: isdir_def r) (simp add: ex_disk_m_def)
  have m: "ex_disk_m [''App1'', ''projets'', ''m''] = Some Dir" by (simp add: ex_disk_m_def)
  show ?thesis
    by (simp add: supprimer_projet_def ex_env_def ex_world_m_def path_join_def d rmtree_def r m
        Let_def)
qed

lemma ex_creer_nul:
  "creer_projet ex_env nom_nul ''magasin'' ''auteur'' ''plan.png'' ex_world
   = (Inl (ValueError OctetNul), ex_world)"
proof -
  have s: "strip nom_nul = nom_nul" by (simp add: strip_def isspace_def nom_nul_def)
  have j: "path_join ''App1/projets'' nom_nul = dossier_nul"
    by (simp add: path_join_def nom_nul_def dossier_nul_def)
  have e: "\<not> path_exists ex_disk [] dossier_nul"
    by (simp add: path_exists_def resolve_def nom_nul_def dossier_nul_def)
  have m: "makedirs ex_disk [] dossier_nul = (Some (ValueError OctetNul), ex_disk)"
    by (simp add: makedirs_def start_dir_def step_def Let_def nom_nul_def dossier_nul_def)
       (simp add: ex_disk_def)
  have n: "nom_nul \<noteq> []" by (simp add: nom_nul_def)
  show ?thesis
    using n by (simp add: creer_projet_def Let_def s ex_env_def ex_world_def j e isfile_plan m)
qed

section \<open>The claims\<close>

text \<open>
  C1. The claim: an empty list under the legacy key \<^verbatim>\<open>produits_par_case\<close> or under
  \<^verbatim>\<open>produits\<close> is loaded as an empty mapping. The code moves the value of the legacy
  key to \<^verbatim>\<open>produits\<close> as it is (line 115) and never reaches the coercion of line 119:
  for the document \<open>ex_doc_legacy\<close> the loaded project holds the empty list under
  \<^verbatim>\<open>produits\<close>, and \<^verbatim>\<open>obtenir_produits_case\<close> then raises \<^verbatim>\<open>AttributeError\<close>.
\<close>

theorem charger_projet_legacy_liste:
  "fst (charger_projet ex_env ''m'' (ex_world_doc ex_doc_legacy))
     = Inr [(''nom'', JStr ''m''), (''magasin'', JStr ''magasin''), (''auteur'', JStr ''auteur''),
            (''chemin_plan'', JStr ''App1/projets/m/plan.png''), (''produits'', JList [])]
   \<and> obtenir_produits_case ''A'' (snd (charger_projet ex_env ''m'' (ex_world_doc ex_doc_legacy)))
     = Inl AttributeError"
  by (simp add: Let_def ex_charger_doc ex_doc_legacy_def champs_requis_def dict_has_def dict_keys_def
      dict_get_def ex_normpath replace_backslash_def compat_produits_def dict_del_def
      obtenir_produits_case_def projet_actif_def)

text \<open>
  C2, as stated, fails when the projects root is not the directory \<^verbatim>\<open>App1/projets\<close>
  of the working directory: line 63 builds the destination from the literal
  \<^verbatim>\<open>"App1", "projets"\<close>, not from \<open>DOSSIER_PROJETS\<close>. With the root \<^verbatim>\<open>/data\<close> the
  project directory made is \<^verbatim>\<open>/data/m\<close>, the plan is copied to
  \<^verbatim>\<open>App1/projets/m/plan.png\<close> under the working directory, and \<^verbatim>\<open>/data/m\<close> holds no
  \<^verbatim>\<open>plan.png\<close>.
\<close>

theorem plan_copie_hors_projet:
  "fst (creer_projet ex_env_ailleurs ''m'' ''magasin'' ''auteur'' ''plan.png'' ex_world_ailleurs)
     = Inr ()
   \<and> disk ex_world_ailleurs [''data'', ''m''] = None
   \<and> resolve (disk (snd (creer_projet ex_env_ailleurs ''m'' ''magasin'' ''auteur'' ''plan.png''
                           ex_world_ailleurs))) []
        (path_join (DOSSIER_PROJETS ex_env_ailleurs) ''m'') = Some [''data'', ''m'']
   \<and> disk (snd (creer_projet ex_env_ailleurs ''m'' ''magasin'' ''auteur'' ''plan.png''
                   ex_world_ailleurs)) [''data'', ''m''] = Some Dir
   \<and> disk (snd (creer_projet ex_env_ailleurs ''m'' ''magasin'' ''auteur'' ''plan.png''
                   ex_world_ailleurs)) [''data'', ''m'', ''plan.png''] = None
   \<and> disk (snd (creer_projet ex_env_ailleurs ''m'' ''magasin'' ''auteur'' ''plan.png''
                   ex_world_ailleurs)) [''App1'', ''projets'', ''m'', ''plan.png'']
       = Some (File (OtherBytes 0))"
  by (simp add: ailleurs_creer)
     (simp add: ex_world_ailleurs_def ex_env_ailleurs_def path_join_def resolve_def start_dir_def
        step_def ex_disk_ailleurs_cree_def ex_disk_ailleurs_def ex_disk_def)

text \<open>
  C2, amended. When \<^verbatim>\<open>creer_projet\<close> returns normally, the trimmed name is one path
  component, and the projects root is an existing directory that is also the directory
  \<^verbatim>\<open>App1/projets\<close> of the working directory (on a well-formed file system), then the
  directory \<open>root/name\<close> did not exist before and is a directory afterwards, and the
  file \<open>plan<extension>\<close> directly inside it holds the content the plan file had.
\<close>

theorem plan_copie_dans_projet:
  assumes ok: "creer_projet ev nom0 magasin auteur plan s = (Inr (), s')"
    and nom: "simple_name (strip nom0)"
    and root: "resolve (disk s) (cwd ev) (DOSSIER_PROJETS ev) = Some q0"
    and asset: "resolve (disk s) (cwd ev) ''App1/projets'' = Some q0"
    and dir: "disk s q0 = Some Dir"
    and tr: "tree (disk s)"
  shows "\<exists>c. read_file (disk s) (cwd ev) plan = Some c
           \<and> disk s (q0 @ [strip nom0]) = None
           \<and> disk s' (q0 @ [strip nom0]) = Some Dir
           \<and> resolve (disk s') (cwd ev) (path_join (DOSSIER_PROJETS ev) (strip nom0))
               = Some (q0 @ [strip nom0])
           \<and> disk s' (q0 @ [strip nom0, ''plan'' @ splitext_ext plan]) = Some (File c)"
proof -
  let ?f = "disk s" and ?wd = "cwd ev" and ?n = "strip nom0"
  define pn where "pn = ''plan'' @ splitext_ext plan"
  let ?md = "path_join (DOSSIER_PROJETS ev) ?n"
  let ?qd = "q0 @ [?n]"
  let ?qp = "q0 @ [?n, pn]"
  let ?f1 = "?f(?qd \<mapsto> Dir)"
  from nom have n: "?n \<noteq> []" "CHR ''/'' \<notin> set ?n" "?n \<noteq> ''.''" "?n \<noteq> ''..''"
    by (simp_all add: simple_name_def)
  have pn: "simple_name pn" unfolding pn_def by (rule simple_plan)
  then have p: "pn \<noteq> []" "CHR ''/'' \<notin> set pn" "pn \<noteq> ''.''" "pn \<noteq> ''..''"
    by (simp_all add: simple_name_def)
  from root have rne: "DOSSIER_PROJETS ev \<noteq> []" by (auto simp: resolve_def)
  from creer_etapes [OF ok, folded pn_def] obtain f1 f2 cfg where
    nex: "\<not> path_exists ?f ?wd ?md"
    and isf: "isfile ?f ?wd plan"
    and mk: "makedirs ?f ?wd ?md = (None, f1)"
    and cp: "copy2 f1 ?wd plan
               (normpath (path_join (path_join (path_join ''App1'' ''projets'') ?n) pn)) = Some f2"
    and dump: "json_dump f2 ?wd (path_join ?md ''config.json'') cfg = Some (disk s')"
    by blast
  \<comment> \<open>no NUL character in the name or in the plan's extension\<close>
  from makedirs_None_nul [OF mk] path_join_right_chars [of ?n "DOSSIER_PROJETS ev"]
  have nz: "CHR 0x00 \<notin> set ?n" by auto
  from isf have "CHR 0x00 \<notin> set plan"
    by (auto simp: isfile_def resolve_def split: option.splits if_splits)
  with splitext_chars [of plan] have pz: "CHR 0x00 \<notin> set pn" by (auto simp: pn_def)
  \<comment> \<open>the project directory is new\<close>
  have rmd: "resolve ?f ?wd ?md = Some ?qd"
    using resolve_join_name [OF rne n(1,2,3,4) nz, of ?f ?wd] root dir by simp
  with nex have absent: "?f ?qd = None" by (simp add: path_exists_def)
  from makedirs_dans_dossier [OF rne nom nz root dir absent] mk have f1: "f1 = ?f1" by simp
  have mono1: "?f1 x = Some Dir" if "?f x = Some Dir" for x
    using that absent by auto
  \<comment> \<open>the plan is read as it was before\<close>
  from isf obtain qs c where qs: "resolve ?f ?wd plan = Some qs" "?f qs = Some (File c)"
    by (auto simp: isfile_def split: option.splits node.splits)
  then have rd: "read_file ?f ?wd plan = Some c" by (simp add: read_file_def)
  have qs1: "resolve ?f1 ?wd plan = Some qs" using qs(1) mono1 by (rule resolve_mono)
  have "qs \<noteq> ?qd" using qs(2) absent by auto
  with qs(2) have "?f1 qs = Some (File c)" by simp
  with qs1 have rd1: "read_file ?f1 ?wd plan = Some c" by (simp add: read_file_def)
  \<comment> \<open>the destination\<close>
  have np: "normpath (path_join (path_join (path_join ''App1'' ''projets'') ?n) pn)
            = path_join (path_join ''App1/projets'' ?n) pn"
    using nom pn by (rule normpath_asset)
  have ra1: "resolve ?f1 ?wd ''App1/projets'' = Some q0" using asset mono1 by (rule resolve_mono)
  have d1: "?f1 q0 = Some Dir" using dir by (rule mono1)
  have rn1: "resolve ?f1 ?wd (path_join ''App1/projets'' ?n) = Some ?qd"
    using resolve_join_name [OF _ n(1,2,3,4) nz, of "''App1/projets''" ?f1 ?wd] ra1 d1 by simp
  have jn: "path_join ''App1/projets'' ?n \<noteq> []" using n(1) by (simp add: path_join_eq_Nil)
  have rp1: "resolve ?f1 ?wd (path_join (path_join ''App1/projets'' ?n) pn) = Some ?qp"
    using resolve_join_name [OF jn p(1,2,3,4) pz, of ?f1 ?wd] rn1 by simp
  have ap: "?f ?qp = None"
    using tree_below_absent [OF tr absent, of pn] by simp
  then have ap1: "?f1 ?qp = None" by simp
  then have nd: "\<not> isdir ?f1 ?wd (path_join (path_join ''App1/projets'' ?n) pn)"
    by (simp add: isdir_def rp1)
  from cp have "write_file ?f1 ?wd (path_join (path_join ''App1/projets'' ?n) pn) c = Some f2"
    unfolding f1 np by (simp add: copy2_def rd1 nd Let_def split: if_splits)
  then have f2: "f2 = ?f1(?qp \<mapsto> File c)"
    using ap by (auto simp: write_file_def rp1 split: if_splits)
  \<comment> \<open>the document\<close>
  have res2: "resolve f2 ?wd x = resolve ?f1 ?wd x" for x
    unfolding f2 using ap1 by (intro resolve_write) simp
  have rr1: "resolve ?f1 ?wd (DOSSIER_PROJETS ev) = Some q0" using root mono1 by (rule resolve_mono)
  have rmd1: "resolve ?f1 ?wd ?md = Some ?qd"
    using resolve_join_name [OF rne n(1,2,3,4) nz, of ?f1 ?wd] rr1 d1 by simp
  have mdne: "?md \<noteq> []" using n(1) by (simp add: path_join_eq_Nil)
  have "f2 ?qd = Some Dir" by (simp add: f2)
  then have rc2: "resolve f2 ?wd (path_join ?md ''config.json'') = Some (?qd @ [''config.json''])"
    by (simp add: res2 resolve_config [OF mdne] rmd1)
  from dump obtain q' where q': "resolve f2 ?wd (path_join ?md ''config.json'') = Some q'"
      "f2 q' \<noteq> Some Dir" "disk s' = f2(q' \<mapsto> File (JsonText cfg))"
    unfolding json_dump_def by (blast dest: write_file_Some)
  with rc2 have q'eq: "q' = ?qd @ [''config.json'']" by simp
  have s': "disk s' = f2(?qd @ [''config.json''] \<mapsto> File (JsonText cfg))"
    using q'(3) q'eq by simp
  have neq: "pn \<noteq> ''config.json''" by (simp add: pn_def)
  have 3: "disk s' ?qd = Some Dir" by (simp add: s' f2)
  have 5: "disk s' ?qp = Some (File c)" using neq by (simp add: s' f2)
  have "resolve (disk s') ?wd ?md = resolve f2 ?wd ?md"
    unfolding q'(3) using q'(2) by (rule resolve_write)
  then have 4: "resolve (disk s') ?wd ?md = Some ?qd" by (simp add: res2 rmd1)
  from rd absent 3 4 5 show ?thesis unfolding pn_def by blast
qed

theorem plan_copie_dans_projet_witness:
  "fst (creer_projet ex_env ''m'' ''magasin'' ''auteur'' ''plan.png'' ex_world) = Inr ()
   \<and> simple_name (strip ''m'')
   \<and> resolve (disk ex_world) (cwd ex_env) (DOSSIER_PROJETS ex_env) = Some [''App1'', ''projets'']
   \<and> tree (disk ex_world)
   \<and> disk (snd (creer_projet ex_env ''m'' ''magasin'' ''auteur'' ''plan.png'' ex_world))
        [''App1'', ''projets'', ''m''] = Some Dir
   \<and> disk (snd (creer_projet ex_env ''m'' ''magasin'' ''auteur'' ''plan.png'' ex_world))
        [''App1'', ''projets'', ''m'', ''plan.png''] = Some (File (OtherBytes 0))"
proof -
  let ?s = "snd (creer_projet ex_env ''m'' ''magasin'' ''auteur'' ''plan.png'' ex_world)"
  have ok: "creer_projet ex_env ''m'' ''magasin'' ''auteur'' ''plan.png'' ex_world = (Inr (), ?s)"
    using ex_creer by (metis prod.collapse)
  have n: "simple_name (strip ''m'')" by (simp add: strip_m simple_m)
  have r: "resolve (disk ex_world) (cwd ex_env) (DOSSIER_PROJETS ex_env) = Some [''App1'', ''projets'']"
    by (simp add: ex_world_def ex_env_def ex_resolve_root)
  have a: "resolve (disk ex_world) (cwd ex_env) ''App1/projets'' = Some [''App1'', ''projets'']"
    by (simp add: ex_world_def ex_env_def ex_resolve_root)
  have d: "disk ex_world [''App1'', ''projets''] = Some Dir"
    by (simp add: ex_world_def ex_disk_def)
  have t: "tree (disk ex_world)" by (simp add: ex_world_def ex_tree)
  have rf: "read_file (disk ex_world) (cwd ex_env) ''plan.png'' = Some (OtherBytes 0)"
    by (simp add: read_file_def resolve_def start_dir_def step_def ex_world_def ex_env_def
        ex_disk_def)
  from plan_copie_dans_projet [OF ok n r a d t] rf ex_creer n r t
  show ?thesis by (simp add: strip_m ex_splitext)
qed

text \<open>
  C3, as stated, fails twice. \<^verbatim>\<open>creer_projet\<close> trims the name, so after creating
  with the name \<^verbatim>\<open>" m"\<close> the project is \<^verbatim>\<open>m\<close> and \<^verbatim>\<open>charger_projet(" m")\<close>
  finds no directory. And for a name that ends in a backslash the stored plan path is
  \<^verbatim>\<open>App1/projets/a//plan.png\<close> (the backslash replaced after the normalisation), which
  \<^verbatim>\<open>charger_projet\<close> normalises again to \<^verbatim>\<open>App1/projets/a/plan.png\<close>: the plan path
  of the loaded project differs from the created one.
\<close>

theorem creer_puis_charger_different:
  "fst (creer_projet ex_env '' m'' ''magasin'' ''auteur'' ''plan.png'' ex_world) = Inr ()
   \<and> fst (charger_projet ex_env '' m''
            (snd (creer_projet ex_env '' m'' ''magasin'' ''auteur'' ''plan.png'' ex_world)))
       = Inl (ValueError ProjetIntrouvable)
   \<and> fst (creer_projet ex_env nom_backslash ''magasin'' ''auteur'' ''plan.png'' ex_world) = Inr ()
   \<and> projet_actuel (snd (creer_projet ex_env nom_backslash ''magasin'' ''auteur'' ''plan.png'' ex_world))
       = Some (projet_initial nom_backslash ''magasin'' ''auteur'' ''App1/projets/a//plan.png'')
   \<and> fst (charger_projet ex_env nom_backslash
            (snd (creer_projet ex_env nom_backslash ''magasin'' ''auteur'' ''plan.png'' ex_world)))
       = Inr (projet_initial nom_backslash ''magasin'' ''auteur'' ''App1/projets/a/plan.png'')"
proof -
  let ?s = "snd (creer_projet ex_env nom_backslash ''magasin'' ''auteur'' ''plan.png'' ex_world)"
  let ?cfg = "projet_initial nom_backslash ''magasin'' ''auteur'' ''App1/projets/a//plan.png''"
  have 1: "creer_projet ex_env '' m'' ''magasin'' ''auteur'' ''plan.png'' ex_world
           = (Inr (), \<lparr>disk = ex_disk_cree, projet_actuel = Some ex_config0\<rparr>)"
    by (rule ex_creer_strip) (simp_all add: strip_esp_m)
  have c: "creer_projet ex_env nom_backslash ''magasin'' ''auteur'' ''plan.png'' ex_world
           = (Inr (), ?s)"
    using ex_creer_backslash by (metis prod.collapse)
  from creer_Inr [OF c] obtain f2 where
    dump: "json_dump f2 (cwd ex_env)
             (path_join (path_join (DOSSIER_PROJETS ex_env) nom_backslash) ''config.json'')
             (JObj ?cfg) = Some (disk ?s)"
    and act: "projet_actuel ?s = Some ?cfg"
    by (auto simp: strip_nb join_nb' join_plan_nb ex_splitext normpath_nb replace_nb)
  have "path_join (DOSSIER_PROJETS ex_env) nom_backslash \<noteq> []"
    by (simp add: path_join_eq_Nil nb_ne)
  from json_dump_then_load [OF dump this]
  have d: "isdir (disk ?s) (cwd ex_env) (path_join (DOSSIER_PROJETS ex_env) nom_backslash)"
    and l: "json_load (disk ?s) (cwd ex_env)
              (path_join (path_join (DOSSIER_PROJETS ex_env) nom_backslash) ''config.json'')
            = Some (JObj ?cfg)"
    by simp_all
  have 3: "fst (charger_projet ex_env nom_backslash ?s)
           = Inr (projet_initial nom_backslash ''magasin'' ''auteur'' ''App1/projets/a/plan.png'')"
    by (simp add: charger_projet_def Let_def d l all_in_obj champs_requis_def)
       (simp add: Let_def projet_initial_def dict_has_def dict_keys_def dict_get_def
          normpath_nb2 replace_backslash_def compat_produits_def)
  from 1 ex_charger_esp ex_creer_backslash act 3 show ?thesis by simp
qed

text \<open>
  C3, amended. When \<^verbatim>\<open>creer_projet\<close> returns normally and neither the trimmed name nor
  the extension of the plan holds a backslash, \<^verbatim>\<open>charger_projet\<close> of the trimmed name
  returns the created project: the trimmed name, the store, the author, the plan path and
  empty placements; and it leaves the state as it is.
\<close>

theorem creer_puis_charger:
  assumes "creer_projet ev nom0 magasin auteur plan s = (Inr (), s')"
    and "CHR 0x5C \<notin> set (strip nom0)" "CHR 0x5C \<notin> set (splitext_ext plan)"
  shows "\<exists>chemin. projet_actuel s' = Some (projet_initial (strip nom0) magasin auteur chemin)
           \<and> charger_projet ev (strip nom0) s'
               = (Inr (projet_initial (strip nom0) magasin auteur chemin), s')"
proof -
  let ?nom = "strip nom0"
  let ?x = "path_join (path_join (path_join ''App1'' ''projets'') ?nom) (''plan'' @ splitext_ext plan)"
  let ?c = "replace_backslash (normpath ?x)"
  let ?cfg = "projet_initial ?nom magasin auteur ?c"
  from creer_Inr [OF assms(1)] obtain f2 where
    ne: "?nom \<noteq> []"
    and dump: "json_dump f2 (cwd ev)
                 (path_join (path_join (DOSSIER_PROJETS ev) ?nom) ''config.json'') (JObj ?cfg)
               = Some (disk s')"
    and act: "projet_actuel s' = Some ?cfg"
    by blast
  from ne have "path_join (DOSSIER_PROJETS ev) ?nom \<noteq> []" by (simp add: path_join_eq_Nil)
  from json_dump_then_load [OF dump this]
  have d: "isdir (disk s') (cwd ev) (path_join (DOSSIER_PROJETS ev) ?nom)"
    and l: "json_load (disk s') (cwd ev)
              (path_join (path_join (DOSSIER_PROJETS ev) ?nom) ''config.json'') = Some (JObj ?cfg)"
    by simp_all
  have "CHR 0x5C \<notin> set ?x"
    using assms(2,3) by (auto dest!: path_join_chars)
  then have nb: "CHR 0x5C \<notin> set (normpath ?x)"
    by (auto dest: normpath_chars)
  then have c1: "?c = normpath ?x" by (rule replace_backslash_id)
  have c: "replace_backslash (normpath ?c) = ?c"
    by (simp only: c1 normpath_idem)
  have "s'\<lparr>projet_actuel := Some ?cfg\<rparr> = s'" using act by simp
  with charger_projet_initial [OF d l c] act show ?thesis by auto
qed

theorem creer_puis_charger_witness:
  "fst (creer_projet ex_env '' m'' ''magasin'' ''auteur'' ''plan.png'' ex_world) = Inr ()
   \<and> CHR 0x5C \<notin> set (strip '' m'') \<and> CHR 0x5C \<notin> set (splitext_ext ''plan.png'')
   \<and> (\<exists>chemin.
         charger_projet ex_env ''m''
           (snd (creer_projet ex_env '' m'' ''magasin'' ''auteur'' ''plan.png'' ex_world))
         = (Inr (projet_initial ''m'' ''magasin'' ''auteur'' chemin),
            snd (creer_projet ex_env '' m'' ''magasin'' ''auteur'' ''plan.png'' ex_world)))"
proof -
  let ?s = "snd (creer_projet ex_env '' m'' ''magasin'' ''auteur'' ''plan.png'' ex_world)"
  have 1: "creer_projet ex_env '' m'' ''magasin'' ''auteur'' ''plan.png'' ex_world
           = (Inr (), \<lparr>disk = ex_disk_cree, projet_actuel = Some ex_config0\<rparr>)"
    by (rule ex_creer_strip) (simp_all add: strip_esp_m)
  then have c: "creer_projet ex_env '' m'' ''magasin'' ''auteur'' ''plan.png'' ex_world = (Inr (), ?s)"
    by simp
  have a: "CHR 0x5C \<notin> set (strip '' m'')" by (simp add: strip_esp_m)
  have b: "CHR 0x5C \<notin> set (splitext_ext ''plan.png'')" by (simp add: ex_splitext)
  from creer_puis_charger [OF c a b] 1 a b show ?thesis by (auto simp: strip_esp_m)
qed

text \<open>
  C4, as stated, fails in two ways. After \<^verbatim>\<open>charger_projet\<close> loaded the document
  \<open>ex_doc_legacy\<close>, whose legacy key holds a list, the placements of the current project
  are that list: \<^verbatim>\<open>definir_produits_case\<close> raises \<^verbatim>\<open>TypeError\<close> on line 178 and
  changes nothing, and \<^verbatim>\<open>obtenir_produits_case\<close> raises \<^verbatim>\<open>AttributeError\<close> on line
  168. And when the document cannot be written (here the directory of the current project
  is gone), \<^verbatim>\<open>definir_produits_case\<close> raises the \<^verbatim>\<open>ValueError\<close> of line 159: the file
  system is as before, no document holds the sequence, and \<^verbatim>\<open>charger_projet\<close> finds no
  project.
\<close>

theorem definir_puis_obtenir_echec:
  "charger_projet ex_env ''m'' (ex_world_doc ex_doc_legacy)
     = (Inr ex_config_liste, (ex_world_doc ex_doc_legacy)\<lparr>projet_actuel := Some ex_config_liste\<rparr>)
   \<and> definir_produits_case ex_env ''A'' [''x'']
        ((ex_world_doc ex_doc_legacy)\<lparr>projet_actuel := Some ex_config_liste\<rparr>)
     = (Inl TypeError, (ex_world_doc ex_doc_legacy)\<lparr>projet_actuel := Some ex_config_liste\<rparr>)
   \<and> obtenir_produits_case ''A''
        ((ex_world_doc ex_doc_legacy)\<lparr>projet_actuel := Some ex_config_liste\<rparr>)
     = Inl AttributeError
   \<and> fst (definir_produits_case ex_env ''C'' [''u''] (ex_world_m\<lparr>disk := ex_disk\<rparr>))
     = Inl (ValueError ErreurSauvegarde)
   \<and> disk (snd (definir_produits_case ex_env ''C'' [''u''] (ex_world_m\<lparr>disk := ex_disk\<rparr>)))
     = ex_disk
   \<and> fst (charger_projet ex_env ''m''
            (snd (definir_produits_case ex_env ''C'' [''u''] (ex_world_m\<lparr>disk := ex_disk\<rparr>))))
     = Inl (ValueError ProjetIntrouvable)"
proof -
  have 1: "definir_produits_case ex_env ''A'' [''x'']
        ((ex_world_doc ex_doc_legacy)\<lparr>projet_actuel := Some ex_config_liste\<rparr>)
     = (Inl TypeError, (ex_world_doc ex_doc_legacy)\<lparr>projet_actuel := Some ex_config_liste\<rparr>)"
    by (simp add: definir_produits_case_def projet_actif_def ex_config_liste_def dict_get_def)
  have 2: "obtenir_produits_case ''A''
        ((ex_world_doc ex_doc_legacy)\<lparr>projet_actuel := Some ex_config_liste\<rparr>)
     = Inl AttributeError"
    by (simp add: obtenir_produits_case_def projet_actif_def ex_config_liste_def dict_get_def)
  have nd: "\<not> isdir ex_disk [] ''App1/projets/m''"
    by (simp add: isdir_def ex_resolve_m) (simp add: ex_disk_def)
  have 3: "definir_produits_case ex_env ''C'' [''u''] (ex_world_m\<lparr>disk := ex_disk\<rparr>)
           = (Inl (ValueError ErreurSauvegarde),
              \<lparr>disk = ex_disk,
               projet_actuel = Some (dict_set ex_config ''produits''
                  (JObj [(''A'', JList [JStr ''x'', JStr ''y'']), (''B'', JList [JStr ''z'']),
                         (''C'', JList [JStr ''u''])]))\<rparr>)"
    by (simp add: definir_produits_case_def projet_actif_def ex_world_m_def ex_config_def
      dict_get_def set_produits_def sauvegarder_def ex_env_def path_join_def Let_def
      json_dump_def write_file_def resolve_def start_dir_def step_def ex_disk_def)
  have 4: "fst (charger_projet ex_env ''m'' \<lparr>disk = ex_disk, projet_actuel = x\<rparr>)
           = Inl (ValueError ProjetIntrouvable)" for x
    by (simp add: charger_projet_def ex_env_def path_join_def nd)
  from ex_charger_legacy 1 2 3 4 show ?thesis by simp
qed

text \<open>
  C4, amended. In a reachable state with a current project whose placements are a mapping, after
  \<^verbatim>\<open>definir_produits_case(la_case, produits)\<close> with a non-empty sequence,
  \<^verbatim>\<open>obtenir_produits_case(la_case)\<close> returns that sequence, in order. When the call
  returned normally (the document was written) and the project's directory path is not the
  empty string, the document on disk is the current project, and
  \<^verbatim>\<open>charger_projet\<close> of the project's name returns a project that holds the sequence
  under \<open>la_case\<close>.
\<close>

theorem definir_puis_obtenir:
  assumes "reachable ev s" "projet_actuel s = Some cfg"
    and "dict_get cfg ''produits'' = Some (JObj d)" "produits \<noteq> []"
  shows "obtenir_produits_case la_case (snd (definir_produits_case ev la_case produits s))
           = Inr (JList (map JStr produits))
    \<and> (fst (definir_produits_case ev la_case produits s) = Inr ()
         \<and> dict_get cfg ''nom'' = Some (JStr n) \<and> path_join (DOSSIER_PROJETS ev) n \<noteq> []
       \<longrightarrow> (\<exists>doc. json_load (disk (snd (definir_produits_case ev la_case produits s))) (cwd ev)
                     (path_join (path_join (DOSSIER_PROJETS ev) n) ''config.json'')
                    = Some (JObj doc)
                 \<and> projet_actuel (snd (definir_produits_case ev la_case produits s)) = Some doc)
           \<and> (\<exists>cfg' d'. fst (charger_projet ev n (snd (definir_produits_case ev la_case produits s)))
                          = Inr cfg'
                 \<and> dict_get cfg' ''produits'' = Some (JObj d')
                 \<and> dict_get d' la_case = Some (JList (map JStr produits))))"
proof -
  let ?d1 = "dict_set d la_case (JList (map JStr produits))"
  let ?cfg1 = "dict_set cfg ''produits'' (JObj ?d1)"
  let ?s1 = "set_produits cfg ?d1 s"
  from assms(3) have "cfg \<noteq> []" by (auto simp: dict_get_def)
  with assms(2) have act: "projet_actif s = Some cfg" by (simp add: projet_actif_def)
  have def: "definir_produits_case ev la_case produits s = sauvegarder ev ?s1"
    using act assms(3,4) by (simp add: definir_produits_case_def)
  have act1: "projet_actuel ?s1 = Some ?cfg1" by (simp add: set_produits_def)
  then have act1': "projet_actuel (snd (sauvegarder ev ?s1)) = Some ?cfg1" by simp
  have g1: "dict_get ?cfg1 ''produits'' = Some (JObj ?d1)" by (simp add: dict_get_set)
  have ne1: "?cfg1 \<noteq> []" using g1 by (auto simp: dict_get_def)
  have 1: "obtenir_produits_case la_case (snd (sauvegarder ev ?s1)) = Inr (JList (map JStr produits))"
    using act1' g1 ne1 by (simp add: obtenir_produits_case_def projet_actif_def dict_get_set)
  from assms(1,2) have "projet_ok cfg" by (rule reachable_projet_ok)
  then have ok1: "projet_ok ?cfg1" by (rule projet_ok_set_produits)
  have 2: "(\<exists>doc. json_load (disk (snd (sauvegarder ev ?s1))) (cwd ev)
                     (path_join (path_join (DOSSIER_PROJETS ev) n) ''config.json'')
                    = Some (JObj doc)
                 \<and> projet_actuel (snd (sauvegarder ev ?s1)) = Some doc)
           \<and> (\<exists>cfg' d'. fst (charger_projet ev n (snd (sauvegarder ev ?s1))) = Inr cfg'
                 \<and> dict_get cfg' ''produits'' = Some (JObj d')
                 \<and> dict_get d' la_case = Some (JList (map JStr produits)))"
    if sv: "fst (sauvegarder ev ?s1) = Inr ()"
      and nom: "dict_get cfg ''nom'' = Some (JStr n)" "path_join (DOSSIER_PROJETS ev) n \<noteq> []"
  proof -
    from nom(1) have nom1: "dict_get ?cfg1 ''nom'' = Some (JStr n)" by (simp add: dict_get_set)
    from charger_apres_sauvegarde [OF ok1 nom1 nom(2) act1 sv]
      compat_produits_ok_produits [OF ok1 g1] act1'
    show ?thesis by (auto simp: dict_get_set)
  qed
  from 1 2 show ?thesis unfolding def by blast
qed

theorem definir_puis_obtenir_witness:
  "reachable ex_env ex_world_m
   \<and> fst (definir_produits_case ex_env ''C'' [''u'', ''v''] ex_world_m) = Inr ()
   \<and> obtenir_produits_case ''C'' (snd (definir_produits_case ex_env ''C'' [''u'', ''v''] ex_world_m))
       = Inr (JList [JStr ''u'', JStr ''v''])
   \<and> (\<exists>cfg' d'. fst (charger_projet ex_env ''m''
                        (snd (definir_produits_case ex_env ''C'' [''u'', ''v''] ex_world_m)))
                  = Inr cfg'
         \<and> dict_get cfg' ''produits'' = Some (JObj d')
         \<and> dict_get d' ''C'' = Some (JList [JStr ''u'', JStr ''v'']))"
proof -
  let ?d = "[(''A'', JList [JStr ''x'', JStr ''y'']), (''B'', JList [JStr ''z''])]"
  have b: "projet_actuel ex_world_m = Some ex_config" by (simp add: ex_world_m_def)
  have c: "dict_get ex_config ''produits'' = Some (JObj ?d)"
    by (simp add: ex_config_def dict_get_def)
  have n: "dict_get ex_config ''nom'' = Some (JStr ''m'')"
    by (simp add: ex_config_def dict_get_def)
  have p: "path_join (DOSSIER_PROJETS ex_env) ''m'' \<noteq> []"
    by (simp add: path_join_def ex_env_def)
  have q: "[''u'', ''v''] \<noteq> []" by simp
  from definir_puis_obtenir [OF ex_world_m_reachable b c q, of "''C''" "''m''"]
    ex_m_definir n p ex_world_m_reachable
  show ?thesis by simp
qed

text \<open>
  C5, as stated, fails for \<^verbatim>\<open>charger_projet\<close>: the document \<open>ex_doc_vide\<close> binds
  the location \<^verbatim>\<open>A\<close> to an empty list, and loading it from a state that satisfies the
  invariant gives a current project that binds \<^verbatim>\<open>A\<close> to the empty list.
\<close>

theorem charger_projet_case_vide:
  "sans_case_vide (ex_world_doc ex_doc_vide)
   \<and> fst (charger_projet ex_env ''m'' (ex_world_doc ex_doc_vide)) = Inr ex_doc_vide
   \<and> \<not> sans_case_vide (snd (charger_projet ex_env ''m'' (ex_world_doc ex_doc_vide)))"
  by (simp add: Let_def ex_charger_doc ex_doc_vide_def champs_requis_def dict_has_def dict_keys_def
      dict_get_def ex_normpath replace_backslash_def compat_produits_def dict_del_def
      sans_case_vide_def produits_sans_vide_def ex_doc_actuel)

text \<open>
  C5, amended. A successful \<^verbatim>\<open>creer_projet\<close> leaves a current project with an empty
  placements mapping, so the invariant holds; \<^verbatim>\<open>definir_produits_case\<close> preserves the
  invariant, and given an empty sequence it leaves the placements without the location.
  \<^verbatim>\<open>charger_projet\<close> does not filter: the placements of the loaded project are those of
  the document, as they are, and the invariant holds after a successful load if and only if
  the placements of the document bind no location to an empty sequence.
\<close>

theorem sans_case_vide_operations:
  "(fst (creer_projet ev nom magasin auteur plan s) = Inr ()
      \<longrightarrow> (\<exists>cfg'. projet_actuel (snd (creer_projet ev nom magasin auteur plan s)) = Some cfg'
                  \<and> dict_get cfg' ''produits'' = Some (JObj []))
          \<and> sans_case_vide (snd (creer_projet ev nom magasin auteur plan s)))
   \<and> (sans_case_vide s \<longrightarrow> sans_case_vide (snd (definir_produits_case ev la_case produits s)))
   \<and> (projet_actuel s = Some cfg \<and> dict_get cfg ''produits'' = Some (JObj d)
      \<longrightarrow> (\<exists>cfg'. projet_actuel (snd (definir_produits_case ev la_case [] s)) = Some cfg'
                  \<and> dict_get cfg' ''produits'' = Some (JObj (dict_del d la_case)))
          \<and> \<not> dict_has (dict_del d la_case) la_case)
   \<and> (fst (charger_projet ev nom s) = Inr cfg
      \<longrightarrow> (\<exists>doc. json_load (disk s) (cwd ev)
                    (path_join (path_join (DOSSIER_PROJETS ev) nom) ''config.json'')
                  = Some (JObj doc)
              \<and> projet_actuel (snd (charger_projet ev nom s)) = Some cfg
              \<and> dict_get cfg ''produits'' = Some (placements_document doc)
              \<and> sans_case_vide (snd (charger_projet ev nom s))
                  = produits_sans_vide (placements_document doc)))"
  using creer_sans_case_vide [of ev nom magasin auteur plan s]
    creer_produits_vides [of ev nom magasin auteur plan s]
    definir_sans_case_vide [of s ev la_case produits]
    definir_vide_supprime [of s cfg d ev la_case]
    charger_placements [of ev nom s cfg]
  by simp

theorem sans_case_vide_operations_witness:
  "fst (creer_projet ex_env ''m'' ''magasin'' ''auteur'' ''plan.png'' ex_world) = Inr ()
   \<and> (\<exists>cfg'. projet_actuel (snd (creer_projet ex_env ''m'' ''magasin'' ''auteur'' ''plan.png''
                                     ex_world)) = Some cfg'
          \<and> dict_get cfg' ''produits'' = Some (JObj []))
   \<and> sans_case_vide ex_world_m
   \<and> sans_case_vide (snd (definir_produits_case ex_env ''A'' [''u''] ex_world_m))
   \<and> (\<exists>cfg'. projet_actuel (snd (definir_produits_case ex_env ''A'' [] ex_world_m)) = Some cfg'
          \<and> dict_get cfg' ''produits'' = Some (JObj [(''B'', JList [JStr ''z''])]))
   \<and> fst (charger_projet ex_env ''m'' (ex_world_doc ex_config)) = Inr ex_config
   \<and> sans_case_vide (snd (charger_projet ex_env ''m'' (ex_world_doc ex_config)))
   \<and> fst (charger_projet ex_env ''m'' (ex_world_doc ex_doc_vide)) = Inr ex_doc_vide
   \<and> placements_document ex_doc_vide = JObj [(''A'', JList [])]
   \<and> \<not> sans_case_vide (snd (charger_projet ex_env ''m'' (ex_world_doc ex_doc_vide)))"
proof -
  let ?d = "[(''A'', JList [JStr ''x'', JStr ''y'']), (''B'', JList [JStr ''z''])]"
  have a: "sans_case_vide ex_world_m"
    by (simp add: sans_case_vide_def ex_world_m_def ex_config_def dict_get_def
        produits_sans_vide_def)
  have b: "projet_actuel ex_world_m = Some ex_config" by (simp add: ex_world_m_def)
  have c: "dict_get ex_config ''produits'' = Some (JObj ?d)"
    by (simp add: ex_config_def dict_get_def)
  have e: "dict_del ?d ''A'' = [(''B'', JList [JStr ''z''])]" by (simp add: dict_del_def)
  have f: "fst (charger_projet ex_env ''m'' (ex_world_doc ex_config)) = Inr ex_config"
    by (simp add: ex_charger_m)
  have g: "fst (charger_projet ex_env ''m'' (ex_world_doc ex_doc_vide)) = Inr ex_doc_vide"
    by (simp add: Let_def ex_charger_doc ex_doc_vide_def champs_requis_def dict_has_def
        dict_keys_def dict_get_def ex_normpath replace_backslash_def compat_produits_def)
  have pc: "placements_document ex_config = JObj ?d"
    by (simp add: placements_document_def ex_config_def dict_get_def)
  have pv: "placements_document ex_doc_vide = JObj [(''A'', JList [])]"
    by (simp add: placements_document_def ex_doc_vide_def dict_get_def)
  from sans_case_vide_operations
         [where ev = ex_env and s = ex_world and nom = "''m''" and magasin = "''magasin''"
            and auteur = "''auteur''" and plan = "''plan.png''"]
    ex_creer
  have 1: "\<exists>cfg'. projet_actuel (snd (creer_projet ex_env ''m'' ''magasin'' ''auteur'' ''plan.png''
                                     ex_world)) = Some cfg'
          \<and> dict_get cfg' ''produits'' = Some (JObj [])"
    by simp
  from sans_case_vide_operations
         [where ev = ex_env and s = ex_world_m and la_case = "''A''" and produits = "[''u'']"
            and cfg = ex_config and d = ?d]
    a b c e
  have 2: "sans_case_vide (snd (definir_produits_case ex_env ''A'' [''u''] ex_world_m))
    \<and> (\<exists>cfg'. projet_actuel (snd (definir_produits_case ex_env ''A'' [] ex_world_m)) = Some cfg'
          \<and> dict_get cfg' ''produits'' = Some (JObj [(''B'', JList [JStr ''z''])]))"
    by simp
  from sans_case_vide_operations
         [where ev = ex_env and s = "ex_world_doc ex_config" and nom = "''m''"
            and cfg = ex_config]
    f ex_doc_load_env [of ex_config] pc
  have 3: "sans_case_vide (snd (charger_projet ex_env ''m'' (ex_world_doc ex_config)))"
    by (auto simp: produits_sans_vide_def)
  from sans_case_vide_operations
         [where ev = ex_env and s = "ex_world_doc ex_doc_vide" and nom = "''m''"
            and cfg = ex_doc_vide]
    g ex_doc_load_env [of ex_doc_vide] pv
  have 4: "\<not> sans_case_vide (snd (charger_projet ex_env ''m'' (ex_world_doc ex_doc_vide)))"
    by (auto simp: produits_sans_vide_def)
  from 1 2 3 4 a f g pv ex_creer show ?thesis by simp
qed

text \<open>
  C6. When the four arguments are non-empty, the trimmed name is non-empty, no project
  directory of that name exists and the plan path does not name an existing regular file,
  \<^verbatim>\<open>creer_projet\<close> raises the \<^verbatim>\<open>ValueError\<close> of line 56 (the spec's
  \<open>AssetNotFoundError\<close>) and leaves the whole state as it was: no directory is created,
  no file is copied and \<^verbatim>\<open>projet_actuel\<close> is unchanged.
\<close>

theorem creer_projet_plan_introuvable:
  assumes "nom \<noteq> []" "magasin \<noteq> []" "auteur \<noteq> []" "plan \<noteq> []"
    and "strip nom \<noteq> []"
    and "\<not> path_exists (disk s) (cwd ev) (path_join (DOSSIER_PROJETS ev) (strip nom))"
    and "\<not> isfile (disk s) (cwd ev) plan"
  shows "creer_projet ev nom magasin auteur plan s = (Inl AssetNotFoundError, s)"
  using assms by (simp add: creer_projet_def Let_def)

theorem creer_projet_plan_introuvable_witness:
  "\<not> isfile (disk ex_world) (cwd ex_env) ''absent.png''
   \<and> creer_projet ex_env ''m'' ''magasin'' ''auteur'' ''absent.png'' ex_world
       = (Inl AssetNotFoundError, ex_world)"
  using creer_projet_plan_introuvable
          [of "''m''" "''magasin''" "''auteur''" "''absent.png''" ex_world ex_env]
  by (simp add: strip_m ex_world_def ex_env_def ex_not_exists_m ex_not_isfile_absent
        path_join_def)

text \<open>
  C7, as stated, fails when the placements of the current project are not a mapping from
  locations to sequences. After \<^verbatim>\<open>charger_projet\<close> loaded \<open>ex_doc_legacy\<close> the
  placements are a list, and \<^verbatim>\<open>trouver_case_produit\<close> raises \<^verbatim>\<open>AttributeError\<close> on
  line 204 where the claim has it return \<^verbatim>\<open>None\<close>. After it loaded \<open>ex_doc_chaine\<close>,
  which binds the location \<^verbatim>\<open>A\<close> to the string \<^verbatim>\<open>xyz\<close>, \<^verbatim>\<open>trouver_case_produit\<close>
  returns \<^verbatim>\<open>A\<close> for the product \<^verbatim>\<open>y\<close>, a substring, though no sequence contains it.
\<close>

theorem trouver_case_produit_non_sequence:
  "charger_projet ex_env ''m'' (ex_world_doc ex_doc_legacy)
     = (Inr ex_config_liste, (ex_world_doc ex_doc_legacy)\<lparr>projet_actuel := Some ex_config_liste\<rparr>)
   \<and> trouver_case_produit ''x''
        ((ex_world_doc ex_doc_legacy)\<lparr>projet_actuel := Some ex_config_liste\<rparr>)
     = Inl AttributeError
   \<and> charger_projet ex_env ''m'' (ex_world_doc ex_doc_chaine)
     = (Inr ex_doc_chaine, (ex_world_doc ex_doc_chaine)\<lparr>projet_actuel := Some ex_doc_chaine\<rparr>)
   \<and> dict_get ex_doc_chaine ''produits'' = Some (JObj [(''A'', JStr ''xyz'')])
   \<and> trouver_case_produit ''y''
        ((ex_world_doc ex_doc_chaine)\<lparr>projet_actuel := Some ex_doc_chaine\<rparr>)
     = Inr (Some ''A'')"
proof -
  have 1: "trouver_case_produit ''x''
        ((ex_world_doc ex_doc_legacy)\<lparr>projet_actuel := Some ex_config_liste\<rparr>)
     = Inl AttributeError"
    by (simp add: trouver_case_produit_def projet_actif_def ex_config_liste_def dict_get_def)
  have 2: "dict_get ex_doc_chaine ''produits'' = Some (JObj [(''A'', JStr ''xyz'')])"
    by (simp add: ex_doc_chaine_def dict_get_def)
  have 3: "trouver_case_produit ''y''
        ((ex_world_doc ex_doc_chaine)\<lparr>projet_actuel := Some ex_doc_chaine\<rparr>)
     = Inr (Some ''A'')"
    by (simp add: trouver_case_produit_def projet_actif_def 2) (simp add: ex_doc_chaine_def)
  from ex_charger_legacy ex_charger_chaine 1 2 3 show ?thesis by simp
qed

text \<open>
  C7, amended. With no current project \<^verbatim>\<open>trouver_case_produit\<close> returns \<^verbatim>\<open>None\<close>. With a
  current project whose placements are a mapping from locations to product sequences, it
  returns the key of the first entry, in the order of the mapping, whose sequence contains
  the product, and \<^verbatim>\<open>None\<close> when no entry does.
\<close>

theorem trouver_case_produit_premiere:
  "(projet_actuel s = None \<longrightarrow> trouver_case_produit produit s = Inr None)
   \<and> (projet_actuel s = Some cfg \<and> dict_get cfg ''produits'' = Some (JObj d)
        \<and> list_all is_seq (map snd d)
      \<longrightarrow> trouver_case_produit produit s
            = Inr (map_option fst (find (\<lambda>kv. seq_contains (snd kv) produit) d)))"
  by (auto simp: trouver_case_produit_def projet_actif_def trouver_boucle_find dict_get_def)

theorem trouver_case_produit_premiere_witness:
  "trouver_case_produit ''z'' ex_world = Inr None
   \<and> trouver_case_produit ''z'' ex_world_m = Inr (Some ''B'')
   \<and> trouver_case_produit ''y'' ex_world_m = Inr (Some ''A'')
   \<and> trouver_case_produit ''w'' ex_world_m = Inr None"
proof -
  let ?d = "[(''A'', JList [JStr ''x'', JStr ''y'']), (''B'', JList [JStr ''z''])]"
  have a: "projet_actuel ex_world = None" by (simp add: ex_world_def)
  have b: "projet_actuel ex_world_m = Some ex_config" by (simp add: ex_world_m_def)
  have c: "dict_get ex_config ''produits'' = Some (JObj ?d)"
    by (simp add: ex_config_def dict_get_def)
  have d: "list_all is_seq (map snd ?d)" by simp
  from trouver_case_produit_premiere [of ex_world "''z''" ex_config ?d] a
  have 1: "trouver_case_produit ''z'' ex_world = Inr None" by simp
  from trouver_case_produit_premiere [of ex_world_m "''z''" ex_config ?d] b c d
  have 2: "trouver_case_produit ''z'' ex_world_m = Inr (Some ''B'')" by simp
  from trouver_case_produit_premiere [of ex_world_m "''y''" ex_config ?d] b c d
  have 3: "trouver_case_produit ''y'' ex_world_m = Inr (Some ''A'')" by simp
  from trouver_case_produit_premiere [of ex_world_m "''w''" ex_config ?d] b c d
  have 4: "trouver_case_produit ''w'' ex_world_m = Inr None" by simp
  from 1 2 3 4 show ?thesis by simp
qed

text \<open>
  C8. When the current project has the name \<open>nom\<close> and \<^verbatim>\<open>supprimer_projet(nom)\<close>
  returns normally, \<^verbatim>\<open>projet_actuel\<close> is \<^verbatim>\<open>None\<close> afterwards, and
  \<^verbatim>\<open>obtenir_produits_case\<close> then returns the empty list for every location.
\<close>

theorem supprimer_projet_actuel:
  assumes "projet_actuel s = Some cfg"
    and "dict_get cfg ''nom'' = Some (JStr nom)"
    and "supprimer_projet ev nom s = (Inr (), s')"
  shows "projet_actuel s' = None \<and> obtenir_produits_case la_case s' = Inr (JList [])"
proof -
  from assms(2) have "cfg \<noteq> []" by (auto simp: dict_get_def)
  with assms(1) have act: "projet_actif s = Some cfg" by (simp add: projet_actif_def)
  from assms(3) act assms(2) have "projet_actuel s' = None"
    by (auto simp: supprimer_projet_def Let_def split: if_splits option.splits prod.splits
        bool.splits)
  then show ?thesis by (simp add: obtenir_produits_case_def projet_actif_def)
qed

theorem supprimer_projet_actuel_witness:
  "projet_actuel ex_world_m = Some ex_config
   \<and> dict_get ex_config ''nom'' = Some (JStr ''m'')
   \<and> fst (supprimer_projet ex_env ''m'' ex_world_m) = Inr ()
   \<and> projet_actuel (snd (supprimer_projet ex_env ''m'' ex_world_m)) = None
   \<and> obtenir_produits_case ''A'' (snd (supprimer_projet ex_env ''m'' ex_world_m)) = Inr (JList [])"
proof -
  have a: "projet_actuel ex_world_m = Some ex_config" by (simp add: ex_world_m_def)
  have b: "dict_get ex_config ''nom'' = Some (JStr ''m'')"
    by (simp add: ex_config_def dict_get_def)
  have c: "supprimer_projet ex_env ''m'' ex_world_m
           = (Inr (), snd (supprimer_projet ex_env ''m'' ex_world_m))"
    using ex_m_supprimer by (metis prod.collapse)
  from supprimer_projet_actuel [OF a b c, of "''A''"] a b ex_m_supprimer
  show ?thesis by simp
qed

text \<open>
  C9. When \<^verbatim>\<open>supprimer_projet(nom)\<close> returns normally and either no project is
  current or the current project's name is not \<open>nom\<close>, \<^verbatim>\<open>projet_actuel\<close> is
  unchanged.
\<close>

theorem supprimer_autre_projet:
  assumes "supprimer_projet ev nom s = (Inr (), s')"
    and "projet_actuel s = None
         \<or> (\<exists>cfg. projet_actuel s = Some cfg \<and> dict_get cfg ''nom'' \<noteq> Some (JStr nom))"
  shows "projet_actuel s' = projet_actuel s"
  using assms
  by (auto simp: supprimer_projet_def Let_def projet_actif_def
      split: if_splits option.splits prod.splits bool.splits)

theorem supprimer_autre_projet_witness:
  "fst (supprimer_projet ex_env ''m'' (ex_world_m\<lparr>projet_actuel := None\<rparr>)) = Inr ()
   \<and> projet_actuel (snd (supprimer_projet ex_env ''m'' (ex_world_m\<lparr>projet_actuel := None\<rparr>)))
       = None
   \<and> dict_get ex_config_n ''nom'' \<noteq> Some (JStr ''m'')
   \<and> fst (supprimer_projet ex_env ''m'' (ex_world_m\<lparr>projet_actuel := Some ex_config_n\<rparr>))
       = Inr ()
   \<and> projet_actuel
         (snd (supprimer_projet ex_env ''m'' (ex_world_m\<lparr>projet_actuel := Some ex_config_n\<rparr>)))
       = Some ex_config_n"
proof -
  let ?s = "ex_world_m\<lparr>projet_actuel := None\<rparr>"
  let ?t = "ex_world_m\<lparr>projet_actuel := Some ex_config_n\<rparr>"
  have c: "supprimer_projet ex_env ''m'' ?s = (Inr (), snd (supprimer_projet ex_env ''m'' ?s))"
    using ex_supprimer_sans_projet by (metis prod.collapse)
  have d: "supprimer_projet ex_env ''m'' ?t = (Inr (), snd (supprimer_projet ex_env ''m'' ?t))"
    using ex_supprimer_autre by (metis prod.collapse)
  have n: "dict_get ex_config_n ''nom'' \<noteq> Some (JStr ''m'')"
    by (simp add: ex_config_n_def dict_get_def)
  from supprimer_autre_projet [OF c] have 1: "projet_actuel (snd (supprimer_projet ex_env ''m'' ?s)) = None"
    by simp
  from supprimer_autre_projet [OF d] n
  have 2: "projet_actuel (snd (supprimer_projet ex_env ''m'' ?t)) = Some ex_config_n"
    by simp
  from 1 2 n ex_supprimer_sans_projet ex_supprimer_autre show ?thesis by simp
qed

text \<open>
  C10. In every reachable state, a current project has the key \<^verbatim>\<open>produits\<close>
  (whether \<^verbatim>\<open>creer_projet\<close> or \<^verbatim>\<open>charger_projet\<close> set it), and none of
  \<^verbatim>\<open>obtenir_produits_case\<close>, \<^verbatim>\<open>definir_produits_case\<close>,
  \<^verbatim>\<open>obtenir_tous_produits_places\<close> and \<^verbatim>\<open>trouver_case_produit\<close> raises a
  \<^verbatim>\<open>KeyError\<close>.
\<close>

theorem cle_produits_presente:
  assumes "reachable ev s"
  shows "(\<forall>cfg. projet_actuel s = Some cfg \<longrightarrow> dict_has cfg ''produits'')
    \<and> obtenir_produits_case la_case s \<noteq> Inl KeyError
    \<and> fst (definir_produits_case ev la_case produits s) \<noteq> Inl KeyError
    \<and> obtenir_tous_produits_places s \<noteq> Inl KeyError
    \<and> trouver_case_produit produit s \<noteq> Inl KeyError"
proof (cases "projet_actuel s")
  case None
  then show ?thesis
    by (simp add: obtenir_produits_case_def definir_produits_case_def
        obtenir_tous_produits_places_def trouver_case_produit_def projet_actif_def)
next
  case (Some cfg)
  with assms have ok: "projet_ok cfg" by (rule reachable_projet_ok)
  then have p: "dict_has cfg ''produits''" and n: "dict_has cfg ''nom''"
    by (simp_all add: projet_ok_def champs_requis_def)
  from p obtain pl where pl: "dict_get cfg ''produits'' = Some pl" by (auto simp: dict_has_get)
  have 1: "obtenir_produits_case la_case s \<noteq> Inl KeyError"
    using Some pl by (auto simp: obtenir_produits_case_def projet_actif_def split: json.splits)
  have 2: "fst (definir_produits_case ev la_case produits s) \<noteq> Inl KeyError"
    using Some p n by (rule definir_no_KeyError)
  have 3: "obtenir_tous_produits_places s \<noteq> Inl KeyError"
    using Some pl extend_all_no_KeyError
    by (auto simp: obtenir_tous_produits_places_def projet_actif_def split: json.splits)
  have 4: "trouver_case_produit produit s \<noteq> Inl KeyError"
    using Some pl trouver_boucle_no_KeyError
    by (auto simp: trouver_case_produit_def projet_actif_def split: json.splits)
  from Some p 1 2 3 4 show ?thesis by simp
qed

theorem cle_produits_presente_witness:
  "reachable ex_env (snd (creer_projet ex_env ''m'' ''magasin'' ''auteur'' ''plan.png'' ex_world))
   \<and> projet_actuel (snd (creer_projet ex_env ''m'' ''magasin'' ''auteur'' ''plan.png'' ex_world))
       = Some ex_config0
   \<and> dict_has ex_config0 ''produits''
   \<and> obtenir_produits_case ''A''
        (snd (creer_projet ex_env ''m'' ''magasin'' ''auteur'' ''plan.png'' ex_world))
       \<noteq> Inl KeyError"
proof -
  let ?s = "snd (creer_projet ex_env ''m'' ''magasin'' ''auteur'' ''plan.png'' ex_world)"
  have "reachable ex_env ex_world" unfolding ex_world_def by (rule reachable.start)
  then have r: "reachable ex_env ?s" by (rule reachable.creer)
  from cle_produits_presente [OF r, of "''A''" "[]" "''x''"] ex_creer r
  show ?thesis by simp
qed

section \<open>Further properties of the store\<close>

text \<open>
  Lines 116 to 119. When the document has no legacy key and its \<^verbatim>\<open>produits\<close> is
  missing or a list, the loaded project has an empty mapping under \<^verbatim>\<open>produits\<close>.
\<close>

theorem charger_projet_produits_canonique:
  assumes "fst (charger_projet ev nom s) = Inr cfg"
    and "json_load (disk s) (cwd ev)
           (path_join (path_join (DOSSIER_PROJETS ev) nom) ''config.json'') = Some (JObj doc)"
    and "\<not> dict_has doc ''produits_par_case''"
    and "dict_get doc ''produits'' = None \<or> (\<exists>vs. dict_get doc ''produits'' = Some (JList vs))"
  shows "dict_get cfg ''produits'' = Some (JObj [])"
proof -
  from charger_document [OF assms(1)] assms(2) obtain c where
    "cfg = compat_produits (dict_set doc ''chemin_plan'' (JStr c))" by auto
  then have "dict_get cfg ''produits'' = dict_get (compat_produits doc) ''produits''"
    by (simp add: compat_produits_get_produits_set)
  with assms(3,4) show ?thesis
    by (auto simp: compat_produits_get_produits)
qed

theorem charger_projet_produits_canonique_witness:
  "fst (charger_projet ex_env ''m'' (ex_world_doc ex_doc_liste))
     = Inr (projet_initial ''m'' ''magasin'' ''auteur'' ''App1/projets/m/plan.png'')
   \<and> dict_get ex_doc_liste ''produits'' = Some (JList [])
   \<and> dict_get (projet_initial ''m'' ''magasin'' ''auteur'' ''App1/projets/m/plan.png'') ''produits''
       = Some (JObj [])"
proof -
  have a: "\<not> dict_has ex_doc_liste ''produits_par_case''"
    by (simp add: ex_doc_liste_def dict_has_def dict_keys_def)
  have b: "dict_get ex_doc_liste ''produits'' = Some (JList [])"
    by (simp add: ex_doc_liste_def dict_get_def)
  from charger_projet_produits_canonique [OF ex_charger_liste ex_doc_load_env a] b ex_charger_liste
  show ?thesis by simp
qed

text \<open>
  Lines 114 and 115. When the document has the legacy key \<^verbatim>\<open>produits_par_case\<close>, the
  loaded project holds its value under \<^verbatim>\<open>produits\<close> and has no legacy key.
\<close>

theorem charger_projet_produits_legacy:
  assumes "fst (charger_projet ev nom s) = Inr cfg"
    and "json_load (disk s) (cwd ev)
           (path_join (path_join (DOSSIER_PROJETS ev) nom) ''config.json'') = Some (JObj doc)"
    and "dict_get doc ''produits_par_case'' = Some v"
  shows "dict_get cfg ''produits'' = Some v \<and> \<not> dict_has cfg ''produits_par_case''"
proof -
  from charger_document [OF assms(1)] assms(2) obtain c where
    cfg: "cfg = compat_produits (dict_set doc ''chemin_plan'' (JStr c))" by auto
  then have "dict_get cfg ''produits'' = dict_get (compat_produits doc) ''produits''"
    by (simp add: compat_produits_get_produits_set)
  with assms(3) have 1: "dict_get cfg ''produits'' = Some v"
    by (simp add: compat_produits_get_produits dict_has_get)
  have 2: "\<not> dict_has cfg ''produits_par_case''"
    unfolding cfg by (simp add: compat_produits_has)
  from 1 2 show ?thesis ..
qed

theorem charger_projet_produits_legacy_witness:
  "dict_get ex_doc_ancien ''produits_par_case'' = Some (JObj [(''A'', JList [JStr ''x''])])
   \<and> (\<exists>cfg. fst (charger_projet ex_env ''m'' (ex_world_doc ex_doc_ancien)) = Inr cfg
         \<and> dict_get cfg ''produits'' = Some (JObj [(''A'', JList [JStr ''x''])])
         \<and> \<not> dict_has cfg ''produits_par_case'')"
proof -
  have b: "dict_get ex_doc_ancien ''produits_par_case'' = Some (JObj [(''A'', JList [JStr ''x''])])"
    by (simp add: ex_doc_ancien_def dict_get_def)
  from charger_projet_produits_legacy [OF ex_charger_ancien ex_doc_load_env b] b ex_charger_ancien
  show ?thesis by blast
qed

text \<open>
  Lines 148 and 149. With no current project \<^verbatim>\<open>sauvegarder\<close> raises and changes
  nothing.
\<close>

theorem sauvegarder_sans_projet:
  "projet_actuel s = None \<Longrightarrow> sauvegarder ev s = (Inl (ValueError AucunProjetASauvegarder), s)"
  by (simp add: sauvegarder_def projet_actif_def)

theorem sauvegarder_sans_projet_witness:
  "projet_actuel ex_world = None
   \<and> sauvegarder ex_env ex_world = (Inl (ValueError AucunProjetASauvegarder), ex_world)"
  using sauvegarder_sans_projet [of ex_world ex_env] by (simp add: ex_world_def)

text \<open>
  Lines 49 to 52. When the project directory exists already, \<^verbatim>\<open>creer_projet\<close> raises
  and changes nothing.
\<close>

theorem creer_projet_existe_deja:
  assumes "nom \<noteq> []" "magasin \<noteq> []" "auteur \<noteq> []" "plan \<noteq> []"
    and "strip nom \<noteq> []"
    and "path_exists (disk s) (cwd ev) (path_join (DOSSIER_PROJETS ev) (strip nom))"
  shows "creer_projet ev nom magasin auteur plan s = (Inl (ValueError ProjetExisteDeja), s)"
  using assms by (simp add: creer_projet_def Let_def)

theorem creer_projet_existe_deja_witness:
  "path_exists (disk ex_world_m) (cwd ex_env) (path_join (DOSSIER_PROJETS ex_env) ''m'')
   \<and> creer_projet ex_env ''m'' ''magasin'' ''auteur'' ''plan.png'' ex_world_m
       = (Inl (ValueError ProjetExisteDeja), ex_world_m)"
proof -
  have e: "path_exists (disk ex_world_m) (cwd ex_env) (path_join (DOSSIER_PROJETS ex_env) (strip ''m''))"
    by (simp add: strip_m ex_world_m_def ex_env_def path_join_def ex_m_exists)
  from creer_projet_existe_deja [of "''m''" "''magasin''" "''auteur''" "''plan.png''" ex_world_m ex_env] e
  show ?thesis by (simp add: strip_m)
qed

text \<open>
  Lines 184 to 195. With no current project the result is empty; with placements that map
  locations to sequences, it is the concatenation of the sequences in the order of the
  mapping.
\<close>

theorem obtenir_tous_produits_places_concat:
  "(projet_actuel s = None \<longrightarrow> obtenir_tous_produits_places s = Inr [])
   \<and> (projet_actuel s = Some cfg \<and> dict_get cfg ''produits'' = Some (JObj d)
        \<and> list_all is_seq (map snd d)
      \<longrightarrow> obtenir_tous_produits_places s
            = Inr (concat (map (\<lambda>kv. case snd kv of JList xs \<Rightarrow> xs | _ \<Rightarrow> []) d)))"
  by (auto simp: obtenir_tous_produits_places_def projet_actif_def extend_all_concat dict_get_def
      comp_def)

theorem obtenir_tous_produits_places_concat_witness:
  "obtenir_tous_produits_places ex_world = Inr []
   \<and> obtenir_tous_produits_places ex_world_m = Inr [JStr ''x'', JStr ''y'', JStr ''z'']"
proof -
  let ?d = "[(''A'', JList [JStr ''x'', JStr ''y'']), (''B'', JList [JStr ''z''])]"
  have a: "projet_actuel ex_world = None" by (simp add: ex_world_def)
  have b: "projet_actuel ex_world_m = Some ex_config" by (simp add: ex_world_m_def)
  have c: "dict_get ex_config ''produits'' = Some (JObj ?d)"
    by (simp add: ex_config_def dict_get_def)
  from obtenir_tous_produits_places_concat [of ex_world ex_config ?d] a
  have 1: "obtenir_tous_produits_places ex_world = Inr []" by simp
  from obtenir_tous_produits_places_concat [of ex_world_m ex_config ?d] b c
  have 2: "obtenir_tous_produits_places ex_world_m = Inr [JStr ''x'', JStr ''y'', JStr ''z'']"
    by simp
  from 1 2 show ?thesis ..
qed

text \<open>
  Lines 71 to 77 and 177 to 180. A successful \<^verbatim>\<open>creer_projet\<close> leaves placements that
  are a mapping from locations to sequences, and \<^verbatim>\<open>definir_produits_case\<close> keeps them
  so, whether it returns or raises.
\<close>

theorem placements_sequences_operations:
  "(fst (creer_projet ev nom magasin auteur plan s) = Inr ()
      \<longrightarrow> placements_sequences (snd (creer_projet ev nom magasin auteur plan s)))
   \<and> (placements_sequences s
      \<longrightarrow> placements_sequences (snd (definir_produits_case ev la_case produits s)))
   \<and> (placements_sequences s \<and> projet_actuel s = Some cfg
      \<longrightarrow> (\<exists>d. dict_get cfg ''produits'' = Some (JObj d) \<and> list_all is_seq (map snd d)))"
proof -
  have 1: "placements_sequences (snd (creer_projet ev nom magasin auteur plan s))"
    if "fst (creer_projet ev nom magasin auteur plan s) = Inr ()"
    using creer_produits_vides [OF that] by (auto simp: placements_sequences_def)
  have 3: "\<exists>d. dict_get cfg ''produits'' = Some (JObj d) \<and> list_all is_seq (map snd d)"
    if "placements_sequences s" "projet_actuel s = Some cfg"
    using that by (auto simp: placements_sequences_def split: option.splits json.splits)
  from 1 definir_placements_sequences [of s ev la_case produits] 3 show ?thesis by blast
qed

theorem placements_sequences_operations_witness:
  "fst (creer_projet ex_env ''m'' ''magasin'' ''auteur'' ''plan.png'' ex_world) = Inr ()
   \<and> placements_sequences (snd (creer_projet ex_env ''m'' ''magasin'' ''auteur'' ''plan.png'' ex_world))
   \<and> placements_sequences ex_world_m
   \<and> placements_sequences (snd (definir_produits_case ex_env ''C'' [''u'', ''v''] ex_world_m))"
proof -
  have a: "placements_sequences ex_world_m"
    by (simp add: placements_sequences_def ex_world_m_def ex_config_def dict_get_def)
  from placements_sequences_operations
         [where ev = ex_env and s = ex_world and nom = "''m''" and magasin = "''magasin''"
            and auteur = "''auteur''" and plan = "''plan.png''"]
    ex_creer
  have 1: "placements_sequences (snd (creer_projet ex_env ''m'' ''magasin'' ''auteur'' ''plan.png'' ex_world))"
    by simp
  from placements_sequences_operations
         [where ev = ex_env and s = ex_world_m and la_case = "''C''" and produits = "[''u'', ''v'']"]
    a
  have 2: "placements_sequences (snd (definir_produits_case ex_env ''C'' [''u'', ''v''] ex_world_m))"
    by simp
  from 1 2 a ex_creer show ?thesis by simp
qed

end
